theory Spec2Isabelle
  imports Main "HOL-Library.AList" "HOL-Library.Code_Target_Nat"
begin

section \<open>JavaScript strings and errors\<close>

text \<open>
  A JavaScript string is modelled as a \<^typ>\<open>string\<close>: a list of code units, here
  restricted to the code units below 256. Every decision the provider takes on a string
  is taken on ASCII characters. The provider runs on a POSIX host (\<open>path.sep\<close> is
  \<open>/\<close>). Logging (\<open>isLoggingEnabled\<close>, \<open>log\<close>) does not change what the functions
  return and is left out.
\<close>

definition sq :: char where "sq = CHR 0x27"
definition dq :: char where "dq = CHR 0x22"
definition bslash :: char where "bslash = CHR 0x5C"

text \<open>\<open>s.startsWith(p)\<close> and \<open>s.includes(p)\<close>.\<close>

definition startsWith :: "string \<Rightarrow> string \<Rightarrow> bool" where
  "startsWith s p = (take (length p) s = p)"

fun str_includes :: "string \<Rightarrow> string \<Rightarrow> bool" where
  "str_includes [] p = (p = [])"
| "str_includes (c # cs) p = (startsWith (c # cs) p \<or> str_includes cs p)"

text \<open>
  The white space and line terminators of ECMAScript that are code units below 256:
  what \<open>trim()\<close> strips and what \<open>\s\<close> matches.
\<close>

definition is_space :: "char \<Rightarrow> bool" where
  "is_space c = (c \<in> set [CHR 0x09, CHR 0x0A, CHR 0x0B, CHR 0x0C, CHR 0x0D, CHR 0x20, CHR 0xA0])"

definition trim :: "string \<Rightarrow> string" where
  "trim s = rev (dropWhile is_space (rev (dropWhile is_space s)))"

text \<open>\<open>s.split(d)\<close> for a one-character separator: never the empty array.\<close>

fun split_on :: "char \<Rightarrow> string \<Rightarrow> string list" where
  "split_on d [] = [[]]"
| "split_on d (c # cs) =
     (if c = d then [] # split_on d cs
      else (case split_on d cs of
              [] \<Rightarrow> [[c]]
            | x # xs \<Rightarrow> (c # x) # xs))"

text \<open>\<open>xs.join(sep)\<close>.\<close>

fun str_join :: "string \<Rightarrow> string list \<Rightarrow> string" where
  "str_join sep [] = []"
| "str_join sep [x] = x"
| "str_join sep (x # y # ys) = x @ sep @ str_join sep (y # ys)"

text \<open>\<open>s.replace(/'/g, "'\\''")\<close>: every single quote becomes \<open>'\''\<close>.\<close>

definition escape_single_quotes :: "string \<Rightarrow> string" where
  "escape_single_quotes s = concat (map (\<lambda>c. if c = sq then [sq, bslash, sq, sq] else [c]) s)"

text \<open>
  A thrown value is an \<open>Error\<close> object: its \<open>name\<close> and its \<open>message\<close>.
  \<open>String(e)\<close> is \<open>Error.prototype.toString\<close>, and \<open>e.message || String(e)\<close> is
  what the provider reports.
\<close>

datatype js_error = JsError (err_name: string) (err_message: string)

definition error_String :: "js_error \<Rightarrow> string" where
  "error_String e =
     (if err_name e = [] then err_message e
      else if err_message e = [] then err_name e
      else err_name e @ '': '' @ err_message e)"

definition message_or_String :: "js_error \<Rightarrow> string" where
  "message_or_String e = (if err_message e \<noteq> [] then err_message e else error_String e)"

definition new_Error :: "string \<Rightarrow> js_error" where
  "new_Error msg = JsError ''Error'' msg"

text \<open>Reading a property of \<open>null\<close> (the sandbox before initialisation) throws.\<close>

definition null_deref :: "string \<Rightarrow> js_error" where
  "null_deref prop =
     JsError ''TypeError'' (''Cannot read properties of null (reading '' @ [sq] @ prop @ [sq] @ '')'')"

section \<open>Node's \<open>path\<close> module (POSIX)\<close>

text \<open>
  \<open>path.join\<close>, \<open>path.relative\<close>, \<open>path.dirname\<close>, \<open>path.basename\<close> and
  \<open>path.isAbsolute\<close> belong to Node, not to the repository; they are modelled from
  Node's \<open>lib/path.js\<close> (the \<open>posix\<close> half). \<open>normalizeString\<close> walks the segments
  between slashes: empty segments and \<open>.\<close> are dropped, \<open>..\<close> removes the segment
  before it unless there is none or it is \<open>..\<close> itself, in which case it is kept only
  when the path may climb above its root.
\<close>

definition isAbsolute :: "string \<Rightarrow> bool" where
  "isAbsolute p = (p \<noteq> [] \<and> hd p = CHR ''/'')"

fun normalize_segs :: "bool \<Rightarrow> string list \<Rightarrow> string list \<Rightarrow> string list" where
  "normalize_segs up acc [] = rev acc"
| "normalize_segs up acc (seg # segs) =
     (if seg = [] \<or> seg = ''.'' then normalize_segs up acc segs
      else if seg = ''..'' then
        (case acc of
           [] \<Rightarrow> normalize_segs up (if up then [''..''] else []) segs
         | seg0 # below \<Rightarrow>
             if seg0 = ''..'' then normalize_segs up (if up then ''..'' # acc else acc) segs
             else normalize_segs up below segs)
      else normalize_segs up (seg # acc) segs)"

definition normalizeString :: "string \<Rightarrow> bool \<Rightarrow> string" where
  "normalizeString p up = str_join ''/'' (normalize_segs up [] (split_on CHR ''/'' p))"

definition path_normalize :: "string \<Rightarrow> string" where
  "path_normalize p =
     (if p = [] then ''.''
      else
        let isAbs = (hd p = CHR ''/'');
            trailing = (last p = CHR ''/'');
            q = normalizeString p (\<not> isAbs)
        in if q = [] then (if isAbs then ''/'' else if trailing then ''./'' else ''.'')
           else (if isAbs then ''/'' else []) @ q @ (if trailing then ''/'' else []))"

definition path_join :: "string list \<Rightarrow> string" where
  "path_join args =
     (case filter (\<lambda>a. a \<noteq> []) args of
        [] \<Rightarrow> ''.''
      | parts \<Rightarrow> path_normalize (str_join ''/'' parts))"

text \<open>\<open>path.resolve(p)\<close> of one argument, against the working directory \<open>cwd\<close>.\<close>

definition path_resolve :: "string \<Rightarrow> string \<Rightarrow> string" where
  "path_resolve cwd p =
     (let full = (if p = [] then cwd @ ''/''
                  else if hd p = CHR ''/'' then p @ ''/''
                  else cwd @ ''/'' @ p @ ''/'')
      in ''/'' @ normalizeString full False)"

fun strip_common :: "string list \<Rightarrow> string list \<Rightarrow> string list \<times> string list" where
  "strip_common (x # xs) (y # ys) = (if x = y then strip_common xs ys else (x # xs, y # ys))"
| "strip_common xs ys = (xs, ys)"

text \<open>
  \<open>path.relative(from, to)\<close>: both paths resolved, their common leading segments
  removed, one \<open>..\<close> for every segment left of \<open>from\<close>, then what is left of \<open>to\<close>.
\<close>

definition path_relative :: "string \<Rightarrow> string \<Rightarrow> string \<Rightarrow> string" where
  "path_relative cwd from to =
     (if from = to then []
      else
        let f = filter (\<lambda>s. s \<noteq> []) (split_on CHR ''/'' (path_resolve cwd from));
            t = filter (\<lambda>s. s \<noteq> []) (split_on CHR ''/'' (path_resolve cwd to))
        in case strip_common f t of
             (f', t') \<Rightarrow> str_join ''/'' (map (\<lambda>_. ''..'') f' @ t'))"

text \<open>
  \<open>path.dirname(p)\<close>: the trailing slashes and the last segment are skipped from the
  right, never looking at index 0; what stands before the slash found is the result.
\<close>

definition path_dirname :: "string \<Rightarrow> string" where
  "path_dirname p =
     (if p = [] then ''.''
      else
        let hasRoot = (hd p = CHR ''/'');
            r = dropWhile (\<lambda>c. c \<noteq> CHR ''/'') (dropWhile (\<lambda>c. c = CHR ''/'') (rev (tl p)));
            e = length r
        in if r = [] then (if hasRoot then ''/'' else ''.'')
           else if hasRoot \<and> e = 1 then ''//''
           else take e p)"

definition path_basename :: "string \<Rightarrow> string" where
  "path_basename p = rev (takeWhile (\<lambda>c. c \<noteq> CHR ''/'') (dropWhile (\<lambda>c. c = CHR ''/'') (rev p)))"

section \<open>JavaScript numbers\<close>

text \<open>
  The Numbers of the provider come from \<open>parseInt(digits, 10)\<close>, from numerals of the
  source and from \<open>Date.now()\<close>: integers that are not negative, or \<open>Infinity\<close>. A
  Number is a double: \<open>parseInt\<close> gives the double nearest to the integer that the
  digits denote (ties go to the even mantissa, and what reaches \<open>2^1024\<close> is
  \<open>Infinity\<close>), with every digit counted, as Node does.
\<close>

definition is_digit :: "char \<Rightarrow> bool" where
  "is_digit c = (48 \<le> (of_char c :: nat) \<and> (of_char c :: nat) \<le> 57)"

definition digits_to_nat :: "string \<Rightarrow> nat" where
  "digits_to_nat ds = foldl (\<lambda>n c. 10 * n + (of_char c - 48)) 0 ds"

fun show_nat :: "nat \<Rightarrow> string" where
  "show_nat n = (if n < 10 then [char_of (48 + n)] else show_nat (n div 10) @ [char_of (48 + n mod 10)])"

declare show_nat.simps [simp del]

datatype js_number = Num nat | Infinity

fun bit_length :: "nat \<Rightarrow> nat" where
  "bit_length n = (if n = 0 then 0 else Suc (bit_length (n div 2)))"

declare bit_length.simps [simp del]

text \<open>The quotient \<open>a / b\<close> rounded to the nearest integer, a tie to the even one.\<close>

definition round_half_even :: "nat \<Rightarrow> nat \<Rightarrow> nat" where
  "round_half_even a b =
     (if b < 2 * (a mod b) \<or> (2 * (a mod b) = b \<and> odd (a div b)) then a div b + 1 else a div b)"

definition nearest_double :: "nat \<Rightarrow> js_number" where
  "nearest_double n =
     (if n < 2 ^ 53 then Num n
      else let ulp = 2 ^ (bit_length n - 53);
               v = round_half_even n ulp * ulp
           in if 2 ^ 1024 \<le> v then Infinity else Num v)"

definition parseInt_digits :: "string \<Rightarrow> js_number" where
  "parseInt_digits ds = nearest_double (digits_to_nat ds)"

text \<open>
  \<open>Number::toString\<close>, which template literals apply. For the double \<open>v\<close> it takes
  the least number \<open>k\<close> of digits such that a \<open>k\<close>-digit \<open>s\<close> and an \<open>n\<close> exist with
  \<open>s * 10^(n - k)\<close> rounding to \<open>v\<close>, and of these the \<open>s\<close> nearest to \<open>v\<close>; it
  prints \<open>s\<close> followed by \<open>n - k\<close> zeros when \<open>n \<le> 21\<close>, and in exponent form
  beyond. Below \<open>2^53\<close> every integer is a double of its own and the digits are those
  of the integer. Seventeen digits tell every double from its neighbours.
\<close>

definition distance :: "nat \<Rightarrow> nat \<Rightarrow> nat" where
  "distance a b = (if a \<le> b then b - a else a - b)"

definition decimal_candidates :: "nat \<Rightarrow> nat \<Rightarrow> (nat \<times> nat) list" where
  "decimal_candidates v k =
     concat (map (\<lambda>n. if n < k then []
                       else filter (\<lambda>(s, n). 10 ^ (k - 1) \<le> s \<and> s < 10 ^ k
                                              \<and> nearest_double (s * 10 ^ (n - k)) = Num v)
                              [(v div 10 ^ (n - k), n), (v div 10 ^ (n - k) + 1, n)])
                 [length (show_nat v), length (show_nat v) + 1])"

fun closest :: "nat \<Rightarrow> nat \<Rightarrow> (nat \<times> nat) list \<Rightarrow> (nat \<times> nat) option" where
  "closest v k [] = None"
| "closest v k ((s, n) # rest) =
     (case closest v k rest of
        None \<Rightarrow> Some (s, n)
      | Some (s', n') \<Rightarrow>
          let d = distance (s * 10 ^ (n - k)) v; d' = distance (s' * 10 ^ (n' - k)) v
          in if d < d' \<or> (d = d' \<and> even s) then Some (s, n) else Some (s', n'))"

fun shortest_decimal :: "nat \<Rightarrow> nat list \<Rightarrow> (nat \<times> nat \<times> nat) option" where
  "shortest_decimal v [] = None"
| "shortest_decimal v (k # ks) =
     (case closest v k (decimal_candidates v k) of
        Some (s, n) \<Rightarrow> Some (s, n, k)
      | None \<Rightarrow> shortest_decimal v ks)"

definition Number_String :: "js_number \<Rightarrow> string" where
  "Number_String x =
     (case x of
        Infinity \<Rightarrow> ''Infinity''
      | Num v \<Rightarrow>
          if v < 2 ^ 53 then show_nat v
          else (case shortest_decimal v [1 ..< 18] of
                  None \<Rightarrow> show_nat v
                | Some (s, n, k) \<Rightarrow>
                    if n \<le> 21 then show_nat s @ replicate (n - k) CHR ''0''
                    else [hd (show_nat s)] @ (if k = 1 then [] else CHR ''.'' # tl (show_nat s))
                         @ ''e+'' @ show_nat (n - 1)))"

text \<open>
  \<open>Math.floor(t / d)\<close> for integers \<open>t\<close> and \<open>d\<close>: the quotient is rounded to a double
  of 53 significant bits before the floor is taken.
\<close>

definition floor_quotient :: "nat \<Rightarrow> nat \<Rightarrow> nat" where
  "floor_quotient t d =
     (let b = bit_length (t div d)
      in if 53 \<le> b then round_half_even t (d * 2 ^ (b - 53)) * 2 ^ (b - 53)
         else round_half_even (t * 2 ^ (53 - b)) d div 2 ^ (53 - b))"

section \<open>The remote binding and the provider's state\<close>

text \<open>
  The Daytona SDK is outside the repository. Each of its calls is a function on the
  state \<open>'r\<close> of the remote service that either throws or returns, and leaves a new
  remote state. The provider is verified for every such binding.
\<close>

record sandbox_handle =
  sandbox_id :: string
  has_getPreviewLink :: bool

record client_config =
  cfg_apiKey :: string
  cfg_apiUrl :: "string option"
  cfg_target :: string
  cfg_autoStopInterval :: "(bool \<times> js_number) option"

record session_request =
  req_command :: string
  req_async :: bool
  req_timeout :: "nat option"

record cmd_response =
  resp_output :: "string option"
  resp_error :: "string option"
  resp_exitCode :: "int option"
  resp_cmdId :: "string option"

record preview_info =
  preview_url :: string
  preview_token :: string

record 'r binding =
  sdk_create :: "client_config \<Rightarrow> 'r \<Rightarrow> (js_error + sandbox_handle option) \<times> 'r"
  sdk_remove :: "'r \<Rightarrow> (js_error + unit) \<times> 'r"
  getUserRootDir :: "'r \<Rightarrow> (js_error + string option) \<times> 'r"
  fs_createFolder :: "string \<Rightarrow> 'r \<Rightarrow> (js_error + unit) \<times> 'r"
  fs_uploadFile :: "string \<Rightarrow> string \<Rightarrow> string \<Rightarrow> 'r \<Rightarrow> (js_error + unit) \<times> 'r"
  fs_deleteFile :: "string \<Rightarrow> 'r \<Rightarrow> (js_error + unit) \<times> 'r"
  executeCommand :: "string \<Rightarrow> 'r \<Rightarrow> (js_error + string option) \<times> 'r"
  createSession :: "string \<Rightarrow> 'r \<Rightarrow> (js_error + unit) \<times> 'r"
  executeSessionCommand :: "string \<Rightarrow> session_request \<Rightarrow> 'r \<Rightarrow> (js_error + cmd_response) \<times> 'r"
  getSessionCommandLogs :: "string \<Rightarrow> string \<Rightarrow> 'r \<Rightarrow> (js_error + string list) \<times> 'r"
  deleteSession :: "string \<Rightarrow> 'r \<Rightarrow> (js_error + unit) \<times> 'r"
  sdk_getPreviewLink :: "js_number \<Rightarrow> 'r \<Rightarrow> (js_error + preview_info) \<times> 'r"

text \<open>
  The process environment: \<open>os.homedir()\<close>, \<open>process.cwd()\<close> and the four
  \<open>DAYTONA_*\<close> variables.
\<close>

record host_env =
  homeDir :: string
  workingDir :: string
  env_API_KEY :: "string option"
  env_API_URL :: "string option"
  env_TARGET :: "string option"
  env_AUTO_STOP_INTERVAL :: "string option"

text \<open>
  The fields of \<open>DaytonaSandboxProvider\<close>. The two \<open>Map\<close>s are association lists in
  insertion order (\<open>map_of\<close> is \<open>get\<close>, \<open>AList.update\<close> is \<open>set\<close>). \<open>initPromise\<close>
  holds the outcome of the initialisation it stands for; \<open>remote\<close> is the state of the
  remote service.
\<close>

record 'r provider =
  daytona :: bool
  sandbox :: "sandbox_handle option"
  initialized :: bool
  pathMapping :: "(string \<times> string) list"
  rootDir :: "string option"
  initPromise :: "(js_error + unit) option"
  sessionMap :: "(string \<times> string) list"
  remote :: 'r

record ExecResult =
  stdout :: string
  stderr :: string
  exitCode :: int

text \<open>
  A call \<open>this.sandbox.<prop>.<method>(...)\<close>: a \<open>TypeError\<close> when the sandbox is
  \<open>null\<close>, the binding's call otherwise.
\<close>

definition sandbox_call ::
  "string \<Rightarrow> ('r \<Rightarrow> (js_error + 'a) \<times> 'r) \<Rightarrow> 'r provider \<Rightarrow> (js_error + 'a) \<times> 'r provider" where
  "sandbox_call prop f P =
     (case sandbox P of
        None \<Rightarrow> (Inl (null_deref prop), P)
      | Some _ \<Rightarrow> (case f (remote P) of (res, r') \<Rightarrow> (res, P\<lparr>remote := r'\<rparr>)))"

section \<open>Initialisation\<close>

definition nl :: char where "nl = CHR 0x0A"

definition is_alnum :: "char \<Rightarrow> bool" where
  "is_alnum c =
     (let n = (of_char c :: nat)
      in (48 \<le> n \<and> n \<le> 57) \<or> (65 \<le> n \<and> n \<le> 90) \<or> (97 \<le> n \<and> n \<le> 122))"

text \<open>
  \<open>parseInt(s, 10)\<close>: leading white space, a sign, the longest run of digits. \<open>None\<close>
  is \<open>NaN\<close>; otherwise the sign (\<open>True\<close> for minus) and the magnitude.
\<close>

definition parseInt10 :: "string \<Rightarrow> (bool \<times> js_number) option" where
  "parseInt10 s =
     (let t = dropWhile is_space s;
          neg = (t \<noteq> [] \<and> hd t = CHR ''-'');
          u = (if t \<noteq> [] \<and> (hd t = CHR ''-'' \<or> hd t = CHR ''+'') then tl t else t);
          ds = takeWhile is_digit u
      in if ds = [] then None
         else Some (neg, parseInt_digits ds))"

text \<open>\<open>validateAPIKey\<close>: the key is set, not empty, and matches \<open>/^[a-zA-Z0-9_\-\.]+$/\<close>.\<close>

definition validateAPIKey :: "host_env \<Rightarrow> js_error + string" where
  "validateAPIKey E =
     (case env_API_KEY E of
        None \<Rightarrow> Inl (new_Error ''DAYTONA_API_KEY environment variable not set'')
      | Some apiKey \<Rightarrow>
          if apiKey = [] then Inl (new_Error ''DAYTONA_API_KEY environment variable not set'')
          else if \<not> list_all (\<lambda>c. is_alnum c \<or> c = CHR ''_'' \<or> c = CHR ''-'' \<or> c = CHR ''.'') apiKey
          then Inl (new_Error ''DAYTONA_API_KEY has invalid format - check your configuration'')
          else Inr apiKey)"

text \<open>
  \<open>setupWorkspace\<close>: the four \<open>createFolder\<close> calls are issued as soon as it is
  called; what they throw is swallowed.
\<close>

definition setupWorkspace :: "'r binding \<Rightarrow> 'r provider \<Rightarrow> 'r provider" where
  "setupWorkspace B P =
     (if \<not> (initialized P \<and> sandbox P \<noteq> None) then P
      else foldl (\<lambda>Q dir.
                    case rootDir Q of
                      None \<Rightarrow> Q
                    | Some rd \<Rightarrow> snd (sandbox_call ''fs'' (fs_createFolder B (path_join [rd, dir])) Q))
                 P [''src'', ''tests'', ''docs'', ''config''])"

definition client_config_of :: "host_env \<Rightarrow> string \<Rightarrow> client_config" where
  "client_config_of E apiKey =
     \<lparr>cfg_apiKey = apiKey,
      cfg_apiUrl = (case env_API_URL E of None \<Rightarrow> None | Some u \<Rightarrow> if u = [] then None else Some u),
      cfg_target = (case env_TARGET E of None \<Rightarrow> ''us'' | Some t \<Rightarrow> if t = [] then ''us'' else t),
      cfg_autoStopInterval =
        (case env_AUTO_STOP_INTERVAL E of
           None \<Rightarrow> Some (False, Num 30)
         | Some a \<Rightarrow> if a = [] then Some (False, Num 30) else parseInt10 a)\<rparr>"

text \<open>\<open>initializeInternal\<close>: every error is logged and thrown again.\<close>

definition initializeInternal ::
  "'r binding \<Rightarrow> host_env \<Rightarrow> 'r provider \<Rightarrow> (js_error + unit) \<times> 'r provider" where
  "initializeInternal B E P =
     (case validateAPIKey E of
        Inl e \<Rightarrow> (Inl e, P)
      | Inr apiKey \<Rightarrow>
          let P1 = P\<lparr>daytona := True\<rparr>
          in case sdk_create B (client_config_of E apiKey) (remote P1) of
               (Inl e, r) \<Rightarrow> (Inl e, P1\<lparr>remote := r\<rparr>)
             | (Inr sb, r) \<Rightarrow>
                 let P2 = P1\<lparr>sandbox := sb, remote := r\<rparr>
                 in if sb = None then (Inl (new_Error ''Failed to create Daytona sandbox''), P2)
                    else case getUserRootDir B (remote P2) of
                           (Inl e, r') \<Rightarrow> (Inl e, P2\<lparr>remote := r'\<rparr>)
                         | (Inr rd, r') \<Rightarrow>
                             let P3 = P2\<lparr>rootDir := rd, remote := r'\<rparr>
                             in if rd = None \<or> rd = Some []
                                then (Inl (new_Error ''Failed to get sandbox root directory''), P3)
                                else (Inr (), setupWorkspace B (P3\<lparr>initialized := True\<rparr>)))"

text \<open>
  \<open>initialize\<close>: nothing when initialised; the outcome of the earlier initialisation
  when one was started; a new initialisation otherwise.
\<close>

definition initialize ::
  "'r binding \<Rightarrow> host_env \<Rightarrow> 'r provider \<Rightarrow> (js_error + unit) \<times> 'r provider" where
  "initialize B E P =
     (if initialized P then (Inr (), P)
      else case initPromise P of
             Some outcome \<Rightarrow> (outcome, P)
           | None \<Rightarrow>
               (case initializeInternal B E P of
                  (res, P') \<Rightarrow> (res, P'\<lparr>initPromise := Some res\<rparr>)))"

text \<open>The first statement of \<open>exec\<close>, \<open>uploadFile\<close> and \<open>applyPatch\<close>.\<close>

definition ensure_initialized ::
  "'r binding \<Rightarrow> host_env \<Rightarrow> 'r provider \<Rightarrow> (js_error + unit) \<times> 'r provider" where
  "ensure_initialized B E P =
     (if \<not> (initialized P \<and> sandbox P \<noteq> None) then initialize B E P else (Inr (), P))"

section \<open>Path mapping\<close>

definition isSystemDirectory :: "string \<Rightarrow> string list \<Rightarrow> bool" where
  "isSystemDirectory component allParts =
     (if component = ''home'' \<and> ''daytona'' \<in> set allParts then False
      else component \<in> set [''Users'', ''usr'', ''var'', ''Library'', ''System'', ''Applications''])"

text \<open>
  \<open>pathParts.slice(pathParts.findIndex(p => !isSystemDirectory(p, pathParts)))\<close>: when
  every part is a system directory \<open>findIndex\<close> is \<open>-1\<close> and the slice is the last
  part alone.
\<close>

definition relevantParts :: "string list \<Rightarrow> string list" where
  "relevantParts pathParts =
     (case dropWhile (\<lambda>p. isSystemDirectory p pathParts) pathParts of
        [] \<Rightarrow> (if pathParts = [] then [] else [last pathParts])
      | xs \<Rightarrow> xs)"

definition calculateRemotePath :: "host_env \<Rightarrow> string \<Rightarrow> string \<Rightarrow> string" where
  "calculateRemotePath E rd localPath =
     (if \<not> isAbsolute localPath \<and> \<not> str_includes localPath ''/'' \<and> \<not> str_includes localPath [bslash]
      then path_join [rd, localPath]
      else if isAbsolute localPath then
        (if startsWith localPath (homeDir E)
         then path_join [rd, path_relative (workingDir E) (homeDir E) localPath]
         else if str_includes localPath ''/home/daytona'' then localPath
         else path_join (rd # relevantParts (filter (\<lambda>p. p \<noteq> []) (split_on CHR ''/'' localPath))))
      else path_join [rd, localPath])"

text \<open>\<open>mapPath\<close>: throws when not initialised; the cached path; else a new cache entry.\<close>

definition mapPath :: "host_env \<Rightarrow> string \<Rightarrow> 'r provider \<Rightarrow> (js_error + string) \<times> 'r provider" where
  "mapPath E localPath P =
     (case rootDir P of
        None \<Rightarrow> (Inl (new_Error ''Daytona sandbox not initialized''), P)
      | Some rd \<Rightarrow>
          if \<not> (initialized P \<and> rd \<noteq> []) then (Inl (new_Error ''Daytona sandbox not initialized''), P)
          else (case map_of (pathMapping P) localPath of
                  Some cached \<Rightarrow> (Inr cached, P)
                | None \<Rightarrow>
                    let remotePath = calculateRemotePath E rd localPath
                    in (Inr remotePath, P\<lparr>pathMapping := AList.update localPath remotePath (pathMapping P)\<rparr>)))"

section \<open>Patch application\<close>

definition saveAddedFile ::
  "'r binding \<Rightarrow> host_env \<Rightarrow> string \<Rightarrow> string \<Rightarrow> string \<Rightarrow> 'r provider \<Rightarrow> string \<times> 'r provider" where
  "saveAddedFile B E filePath content currentOutput P =
     (let failed = (\<lambda>e Q. (currentOutput @ ''Error creating '' @ filePath @ '': '' @ error_String e @ [nl], Q))
      in case mapPath E filePath P of
           (Inl e, P1) \<Rightarrow> failed e P1
         | (Inr remotePath, P1) \<Rightarrow>
             let P2 = snd (sandbox_call ''fs'' (fs_createFolder B (path_dirname remotePath)) P1)
             in case sandbox_call ''fs'' (fs_uploadFile B remotePath (path_basename remotePath) content) P2 of
                  (Inl e, P3) \<Rightarrow> failed e P3
                | (Inr _, P3) \<Rightarrow>
                    (case sandbox_call ''process''
                            (executeCommand B (''test -f '' @ [dq] @ remotePath @ [dq] @ '' && echo ''
                               @ [dq] @ ''exists'' @ [dq] @ '' || echo '' @ [dq] @ ''missing'' @ [dq])) P3 of
                       (Inl e, P4) \<Rightarrow> failed e P4
                     | (Inr checkResult, P4) \<Rightarrow>
                         if map_option trim checkResult = Some ''exists''
                         then (currentOutput @ ''Created '' @ filePath @ [nl], P4)
                         else (case sandbox_call ''process''
                                      (executeCommand B (''echo '' @ [sq] @ escape_single_quotes content @ [sq]
                                         @ '' > '' @ [dq] @ remotePath @ [dq])) P4 of
                                 (Inl e, P5) \<Rightarrow> failed e P5
                               | (Inr _, P5) \<Rightarrow>
                                   (currentOutput @ ''Created '' @ filePath @ '' (using echo fallback)'' @ [nl], P5))))"

definition deleteFile ::
  "'r binding \<Rightarrow> host_env \<Rightarrow> string \<Rightarrow> string \<Rightarrow> 'r provider \<Rightarrow> string \<times> 'r provider" where
  "deleteFile B E filePath currentOutput P =
     (let failed = (\<lambda>e Q. (currentOutput @ ''Error deleting '' @ filePath @ '': '' @ error_String e @ [nl], Q))
      in case mapPath E filePath P of
           (Inl e, P1) \<Rightarrow> failed e P1
         | (Inr remotePath, P1) \<Rightarrow>
             (case sandbox_call ''fs'' (fs_deleteFile B remotePath) P1 of
                (Inl e, P2) \<Rightarrow> failed e P2
              | (Inr _, P2) \<Rightarrow> (currentOutput @ ''Deleted '' @ filePath @ [nl], P2)))"

text \<open>The local variables of \<open>processPatches\<close>.\<close>

record patch_state =
  currentFilePath :: string
  currentFileContent :: string
  addingFile :: bool
  successOutput :: string

text \<open>
  One turn of the loop of \<open>processPatches\<close>. In the \<open>*** Add File: \<close> branch the
  source awaits \<open>saveAddedFile\<close> for the file before and drops what it returns; in the
  other two places it assigns it to \<open>successOutput\<close>.
\<close>

definition processLine ::
  "'r binding \<Rightarrow> host_env \<Rightarrow> string \<Rightarrow> patch_state \<Rightarrow> 'r provider \<Rightarrow> patch_state \<times> 'r provider" where
  "processLine B E line st P =
     (if startsWith line ''*** Add File: '' then
        (case (if addingFile st \<and> currentFilePath st \<noteq> []
               then (case saveAddedFile B E (currentFilePath st) (currentFileContent st) (successOutput st) P of
                       (_, P') \<Rightarrow> (st\<lparr>currentFileContent := []\<rparr>, P'))
               else (st, P)) of
           (st1, P1) \<Rightarrow>
             (st1\<lparr>currentFilePath := drop (length ''*** Add File: '') line, addingFile := True\<rparr>, P1))
      else if addingFile st \<and> startsWith line ''+'' then
        (st\<lparr>currentFileContent := currentFileContent st @ drop 1 line @ [nl]\<rparr>, P)
      else if startsWith line ''*** End of File'' \<or> startsWith line ''*** Update File:''
              \<or> startsWith line ''*** Delete File:'' then
        (case (if addingFile st \<and> currentFilePath st \<noteq> []
               then (case saveAddedFile B E (currentFilePath st) (currentFileContent st) (successOutput st) P of
                       (out, P') \<Rightarrow>
                         (st\<lparr>currentFilePath := [], currentFileContent := [], addingFile := False,
                             successOutput := out\<rparr>, P'))
               else (st, P)) of
           (st1, P1) \<Rightarrow>
             if startsWith line ''*** Delete File: '' then
               (case deleteFile B E (drop (length ''*** Delete File: '') line) (successOutput st1) P1 of
                  (out, P2) \<Rightarrow> (st1\<lparr>successOutput := out\<rparr>, P2))
             else (st1, P1))
      else (st, P))"

fun processLines ::
  "'r binding \<Rightarrow> host_env \<Rightarrow> string list \<Rightarrow> patch_state \<Rightarrow> 'r provider \<Rightarrow> patch_state \<times> 'r provider" where
  "processLines B E [] st P = (st, P)"
| "processLines B E (line # rest) st P =
     (case processLine B E line st P of (st', P') \<Rightarrow> processLines B E rest st' P')"

text \<open>\<open>processPatches\<close>: the lines but the first and the last, then the file left open.\<close>

definition processPatches ::
  "'r binding \<Rightarrow> host_env \<Rightarrow> string list \<Rightarrow> 'r provider \<Rightarrow> string \<times> 'r provider" where
  "processPatches B E lines P =
     (case processLines B E (butlast (tl lines))
             \<lparr>currentFilePath = [], currentFileContent = [], addingFile = False, successOutput = []\<rparr> P of
        (st, P1) \<Rightarrow>
          if addingFile st \<and> currentFilePath st \<noteq> []
          then saveAddedFile B E (currentFilePath st) (currentFileContent st) (successOutput st) P1
          else (successOutput st, P1))"

text \<open>
  \<open>applyPatch\<close>. \<open>Inl\<close> is the rejected promise: only the initialisation, which
  stands before the \<open>try\<close>, can reject it.
\<close>

definition patch_lines :: "string \<Rightarrow> string list" where
  "patch_lines patchText = split_on nl (trim patchText)"

definition applyPatch ::
  "'r binding \<Rightarrow> host_env \<Rightarrow> string \<Rightarrow> 'r provider \<Rightarrow> (js_error + ExecResult) \<times> 'r provider" where
  "applyPatch B E patchText P =
     (case ensure_initialized B E P of
        (Inl e, P0) \<Rightarrow> (Inl e, P0)
      | (Inr _, P0) \<Rightarrow>
          let lines = patch_lines patchText
          in if \<not> (startsWith (hd lines) ''*** Begin Patch'' \<and> last lines = ''*** End Patch'')
             then (Inr \<lparr>stdout = [], stderr = message_or_String (new_Error ''Invalid patch format''),
                        exitCode = 1\<rparr>, P0)
             else (case processPatches B E lines P0 of
                     (out, P1) \<Rightarrow>
                       (Inr \<lparr>stdout = (if out = [] then ''Patch applied successfully'' else out),
                             stderr = [], exitCode = 0\<rparr>, P1)))"

section \<open>Command preparation\<close>

text \<open>
  The regular expressions of the provider are written out as matchers. \<open>first_match\<close>
  is the search of \<open>String.prototype.match\<close> for the leftmost position at which a
  pattern matches. In every pattern below a greedy \<open>\s+\<close>, \<open>\s*\<close> or \<open>\d+\<close> is
  followed by something that no character of its own class can start, so giving
  characters back never helps and the greedy run is the only candidate.
\<close>

fun first_match :: "(string \<Rightarrow> 'a option) \<Rightarrow> string \<Rightarrow> 'a option" where
  "first_match m [] = m []"
| "first_match m (c # cs) = (case m (c # cs) of Some x \<Rightarrow> Some x | None \<Rightarrow> first_match m cs)"

definition strip_prefix :: "string \<Rightarrow> string \<Rightarrow> string option" where
  "strip_prefix p s = (if startsWith s p then Some (drop (length p) s) else None)"

text \<open>\<open>\s+\<close>: what follows the white space, when there is some.\<close>

definition skip_spaces1 :: "string \<Rightarrow> string option" where
  "skip_spaces1 s = (if s \<noteq> [] \<and> is_space (hd s) then Some (dropWhile is_space s) else None)"

text \<open>\<open>(\d+)\<close>: the digits and what follows them.\<close>

definition take_digits1 :: "string \<Rightarrow> (string \<times> string) option" where
  "take_digits1 s =
     (if s \<noteq> [] \<and> is_digit (hd s) then Some (takeWhile is_digit s, dropWhile is_digit s) else None)"

text \<open>What \<open>.\<close> does not match.\<close>

definition is_line_terminator :: "char \<Rightarrow> bool" where
  "is_line_terminator c = (c = CHR 0x0A \<or> c = CHR 0x0D)"

text \<open>
  \<open>/^(rm|ls|cat|chmod|python|python3|head|tail|mkdir)\s+([^\/\\\s\-]+)(\s|$)/\<close>, of which
  \<open>fixSimpleFilenamePaths\<close> only asks whether it matches.
\<close>

definition simpleName_char :: "char \<Rightarrow> bool" where
  "simpleName_char c = (c \<noteq> CHR ''/'' \<and> c \<noteq> bslash \<and> \<not> is_space c \<and> c \<noteq> CHR ''-'')"

definition simpleFileCommands :: "string list" where
  "simpleFileCommands = [''rm'', ''ls'', ''cat'', ''chmod'', ''python'', ''python3'', ''head'', ''tail'', ''mkdir'']"

definition simpleFileCommandRegex :: "string \<Rightarrow> bool" where
  "simpleFileCommandRegex s =
     list_ex (\<lambda>w. case strip_prefix w s of
                     None \<Rightarrow> False
                   | Some r \<Rightarrow>
                       (case skip_spaces1 r of
                          None \<Rightarrow> False
                        | Some r1 \<Rightarrow>
                            takeWhile simpleName_char r1 \<noteq> []
                            \<and> (dropWhile simpleName_char r1 = []
                                 \<or> is_space (hd (dropWhile simpleName_char r1)))))
             simpleFileCommands"

text \<open>\<open>path.join(null, ...)\<close> throws: \<open>this.rootDir!\<close> is only an assertion of the type checker.\<close>

definition path_arg_null :: js_error where
  "path_arg_null =
     JsError ''TypeError'' (''The '' @ [dq] @ ''path'' @ [dq] @ '' argument must be of type string. Received null'')"

definition fixSimpleFilenamePaths :: "string option \<Rightarrow> string \<Rightarrow> js_error + string" where
  "fixSimpleFilenamePaths rd commandStr =
     (if simpleFileCommandRegex commandStr then
        (case split_on CHR '' '' commandStr of
           command # arg # others \<Rightarrow>
             if arg \<noteq> [] \<and> \<not> startsWith arg ''-'' \<and> \<not> str_includes arg ''/'' \<and> \<not> str_includes arg [bslash]
             then (case rd of
                     None \<Rightarrow> Inl path_arg_null
                   | Some root \<Rightarrow> Inr (str_join '' '' (command # path_join [root, arg] # others)))
             else Inr commandStr
         | _ \<Rightarrow> Inr commandStr)
      else Inr commandStr)"

definition needsShellWrapping :: "string \<Rightarrow> bool" where
  "needsShellWrapping commandStr =
     (str_includes commandStr '' > '' \<or>
      str_includes commandStr '' | '' \<or>
      str_includes commandStr '' && '' \<or>
      str_includes commandStr '' ; '' \<or>
      str_includes commandStr '' & '' \<or>
      str_includes commandStr ''nohup '' \<or>
      str_includes commandStr [dq] \<or>
      str_includes commandStr [sq] \<or>
      str_includes commandStr ''`'' \<or>
      str_includes commandStr ''$'' \<or>
      (startsWith commandStr ''python'' \<and> (str_includes commandStr ''-c'' \<or> str_includes commandStr ''-m'')) \<or>
      (startsWith commandStr ''python3'' \<and> (str_includes commandStr ''-c'' \<or> str_includes commandStr ''-m'')) \<or>
      str_includes commandStr ''echo'' \<or>
      str_includes commandStr ''which'' \<or>
      str_includes commandStr ''find'' \<or>
      str_includes commandStr ''grep'')"

text \<open>
  \<open>/python3?\s+-c\s+['"](.+)['"]/\<close>. The greedy \<open>(.+)\<close> runs to the end of the line
  and gives back to the last quote that leaves it at least one character.
\<close>

definition last_quote_split :: "string \<Rightarrow> string option" where
  "last_quote_split body =
     (let run = takeWhile (\<lambda>c. \<not> is_line_terminator c) body;
          back = dropWhile (\<lambda>c. c \<noteq> sq \<and> c \<noteq> dq) (rev (tl run))
      in if back = [] then None else Some (hd run # rev (tl back)))"

definition python_c_here :: "string \<Rightarrow> string option" where
  "python_c_here s =
     (case strip_prefix ''python'' s of
        None \<Rightarrow> None
      | Some r \<Rightarrow>
          (case skip_spaces1 (if startsWith r ''3'' then tl r else r) of
             None \<Rightarrow> None
           | Some r1 \<Rightarrow>
               (case strip_prefix ''-c'' r1 of
                  None \<Rightarrow> None
                | Some r2 \<Rightarrow>
                    (case skip_spaces1 r2 of
                       None \<Rightarrow> None
                     | Some r3 \<Rightarrow>
                         if r3 \<noteq> [] \<and> (hd r3 = sq \<or> hd r3 = dq) then last_quote_split (tl r3)
                         else None))))"

definition sh_wrapped :: "string \<Rightarrow> bool" where
  "sh_wrapped commandStr = startsWith commandStr ''/bin/sh -c''"

definition fixPythonCommand :: "string \<Rightarrow> string" where
  "fixPythonCommand commandStr =
     (if (str_includes commandStr ''python -c'' \<or> str_includes commandStr ''python3 -c'')
         \<and> \<not> sh_wrapped commandStr
      then (case first_match python_c_here commandStr of
              Some pythonCode \<Rightarrow>
                ''/bin/sh -c '' @ [sq] @ ''python3 -c '' @ [dq] @ escape_single_quotes pythonCode @ [dq, sq]
            | None \<Rightarrow> commandStr)
      else commandStr)"

text \<open>\<open>/timeout\s+(?:-t\s+)?(\d+)\s+(.*)/\<close>: the digits and the rest of the line.\<close>

definition timeout_here :: "string \<Rightarrow> (string \<times> string) option" where
  "timeout_here s =
     (case strip_prefix ''timeout'' s of
        None \<Rightarrow> None
      | Some r \<Rightarrow>
          (case skip_spaces1 r of
             None \<Rightarrow> None
           | Some r1 \<Rightarrow>
               (case take_digits1
                       (case strip_prefix ''-t'' r1 of
                          None \<Rightarrow> r1
                        | Some r2 \<Rightarrow> (case skip_spaces1 r2 of None \<Rightarrow> r1 | Some r3 \<Rightarrow> r3)) of
                  None \<Rightarrow> None
                | Some (ds, r4) \<Rightarrow>
                    (case skip_spaces1 r4 of
                       None \<Rightarrow> None
                     | Some r5 \<Rightarrow> Some (ds, takeWhile (\<lambda>c. \<not> is_line_terminator c) r5)))))"

definition fixTimeoutCommand :: "string \<Rightarrow> string" where
  "fixTimeoutCommand commandStr =
     (if startsWith commandStr ''timeout '' \<and> \<not> sh_wrapped commandStr
      then (case first_match timeout_here commandStr of
              Some (ds, actualCommand) \<Rightarrow>
                ''/bin/sh -c '' @ [sq] @ actualCommand @ '' & pid=$!; sleep '' @ Number_String (parseInt_digits ds)
                @ ''; kill $pid 2>/dev/null || true; wait $pid 2>/dev/null || true'' @ [sq]
            | None \<Rightarrow> commandStr)
      else commandStr)"

text \<open>\<open>/sleep\s+(\d+)/\<close>.\<close>

definition sleep_here :: "string \<Rightarrow> string option" where
  "sleep_here s =
     (case strip_prefix ''sleep'' s of
        None \<Rightarrow> None
      | Some r \<Rightarrow>
          (case skip_spaces1 r of
             None \<Rightarrow> None
           | Some r1 \<Rightarrow> map_option fst (take_digits1 r1)))"

definition fixSleepCommand :: "string \<Rightarrow> string" where
  "fixSleepCommand commandStr =
     (if startsWith commandStr ''sleep '' \<and> \<not> str_includes commandStr '' && '' \<and> \<not> sh_wrapped commandStr
      then (case first_match sleep_here commandStr of
              Some seconds \<Rightarrow> ''/bin/sh -c '' @ [sq] @ ''sleep '' @ seconds @ [sq]
            | None \<Rightarrow> commandStr)
      else commandStr)"

definition fixNohupCommand :: "string \<Rightarrow> string" where
  "fixNohupCommand commandStr =
     (if startsWith commandStr ''nohup '' \<and> \<not> sh_wrapped commandStr
      then ''/bin/sh -c '' @ [sq] @ ''nohup '' @ escape_single_quotes (drop (length ''nohup '') commandStr) @ [sq]
      else commandStr)"

definition fixFlaskCommand :: "string \<Rightarrow> string" where
  "fixFlaskCommand commandStr =
     (if (str_includes commandStr ''flask run''
          \<or> (str_includes commandStr ''python'' \<and> str_includes commandStr ''app.py''))
         \<and> \<not> sh_wrapped commandStr
      then
        (if (\<not> str_includes commandStr '' -w '' \<and> \<not> str_includes commandStr '' --no-background'')
            \<and> \<not> str_includes commandStr '' & ''
         then ''/bin/sh -c '' @ [sq] @ ''cd $(dirname ''
              @ escape_single_quotes (last (split_on CHR '' '' commandStr))
              @ ''); nohup '' @ escape_single_quotes commandStr
              @ '' > flask.log 2>&1 & echo '' @ [dq] @ ''Flask app started with PID: $!'' @ [dq, sq]
         else commandStr)
      else commandStr)"

definition applyCommandSpecificFixes :: "string \<Rightarrow> string" where
  "applyCommandSpecificFixes commandStr =
     (let wrapped = (if needsShellWrapping commandStr \<and> \<not> sh_wrapped commandStr
                     then ''/bin/sh -c '' @ [sq] @ escape_single_quotes commandStr @ [sq]
                     else commandStr)
      in fixFlaskCommand (fixNohupCommand (fixSleepCommand (fixTimeoutCommand (fixPythonCommand wrapped)))))"

definition prepareCommand :: "string option \<Rightarrow> string list \<Rightarrow> js_error + string" where
  "prepareCommand rd argv =
     (case fixSimpleFilenamePaths rd (str_join '' '' argv) of
        Inl e \<Rightarrow> Inl e
      | Inr commandStr \<Rightarrow> Inr (applyCommandSpecificFixes commandStr))"

section \<open>Response post-processing\<close>

definition isWebServerCommand :: "string \<Rightarrow> bool" where
  "isWebServerCommand commandStr =
     (str_includes commandStr ''flask run'' \<or>
      (str_includes commandStr ''python'' \<and> str_includes commandStr ''app.py'') \<or>
      str_includes commandStr ''node '' \<or>
      str_includes commandStr ''npm start'' \<or>
      str_includes commandStr ''npm run dev'' \<or>
      str_includes commandStr ''npx'' \<or>
      str_includes commandStr ''rails server'' \<or>
      str_includes commandStr ''rails s'' \<or>
      str_includes commandStr ''server'' \<or>
      str_includes commandStr ''serve'' \<or>
      str_includes commandStr ''express'' \<or>
      str_includes commandStr ''http-server'' \<or>
      str_includes commandStr ''live-server'')"

text \<open>
  \<open>/Running on http:\/\/.*?:(\d+)/\<close>: the lazy \<open>.*?\<close> stops at the first colon of
  the line that digits follow.
\<close>

fun colon_digits :: "string \<Rightarrow> string option" where
  "colon_digits [] = None"
| "colon_digits (c # cs) =
     (if c = CHR '':'' \<and> cs \<noteq> [] \<and> is_digit (hd cs) then Some (takeWhile is_digit cs)
      else if is_line_terminator c then None
      else colon_digits cs)"

definition running_on_here :: "string \<Rightarrow> string option" where
  "running_on_here s =
     (case strip_prefix ''Running on http://'' s of None \<Rightarrow> None | Some r \<Rightarrow> colon_digits r)"

text \<open>
  \<open>/(?:listening|started|running|server).+?(?:port|:)\s*(\d+)/i\<close>. Letters are
  compared without case; after the word and at least one character of the line, the
  lazy \<open>.+?\<close> stops at the first \<open>port\<close> or colon that white space and digits follow.
\<close>

definition lower :: "char \<Rightarrow> char" where
  "lower c = (if 65 \<le> (of_char c :: nat) \<and> (of_char c :: nat) \<le> 90 then char_of ((of_char c :: nat) + 32) else c)"

definition strip_prefix_ci :: "string \<Rightarrow> string \<Rightarrow> string option" where
  "strip_prefix_ci p s =
     (if map lower (take (length p) s) = map lower p then Some (drop (length p) s) else None)"

definition spaces_digits :: "string \<Rightarrow> string option" where
  "spaces_digits s = map_option fst (take_digits1 (dropWhile is_space s))"

definition port_tail :: "string \<Rightarrow> string option" where
  "port_tail s =
     (case (case strip_prefix_ci ''port'' s of None \<Rightarrow> None | Some r \<Rightarrow> spaces_digits r) of
        Some ds \<Rightarrow> Some ds
      | None \<Rightarrow> (case strip_prefix '':'' s of None \<Rightarrow> None | Some r \<Rightarrow> spaces_digits r))"

fun lazy_port :: "string \<Rightarrow> string option" where
  "lazy_port [] = port_tail []"
| "lazy_port (c # cs) =
     (case port_tail (c # cs) of
        Some ds \<Rightarrow> Some ds
      | None \<Rightarrow> if is_line_terminator c then None else lazy_port cs)"

definition after_server_word :: "string \<Rightarrow> string option" where
  "after_server_word r =
     (if r \<noteq> [] \<and> \<not> is_line_terminator (hd r) then lazy_port (tl r) else None)"

fun first_some :: "('a \<Rightarrow> 'b option) \<Rightarrow> 'a list \<Rightarrow> 'b option" where
  "first_some f [] = None"
| "first_some f (x # xs) = (case f x of Some y \<Rightarrow> Some y | None \<Rightarrow> first_some f xs)"

definition listening_here :: "string \<Rightarrow> string option" where
  "listening_here s =
     first_some (\<lambda>w. case strip_prefix_ci w s of None \<Rightarrow> None | Some r \<Rightarrow> after_server_word r)
       [''listening'', ''started'', ''running'', ''server'']"

text \<open>\<open>/--port[= ](\d+)|-p\s+(\d+)/\<close>, and \<open>portFlagMatch[1] || portFlagMatch[2]\<close>.\<close>

definition port_flag_here :: "string \<Rightarrow> string option" where
  "port_flag_here s =
     (case (case strip_prefix ''--port'' s of
              None \<Rightarrow> None
            | Some r \<Rightarrow>
                if r \<noteq> [] \<and> (hd r = CHR ''='' \<or> hd r = CHR '' '') then map_option fst (take_digits1 (tl r))
                else None) of
        Some ds \<Rightarrow> Some ds
      | None \<Rightarrow>
          (case strip_prefix ''-p'' s of
             None \<Rightarrow> None
           | Some r \<Rightarrow>
               (case skip_spaces1 r of None \<Rightarrow> None | Some r1 \<Rightarrow> map_option fst (take_digits1 r1))))"

definition detectServerPort :: "string \<Rightarrow> string \<Rightarrow> js_number" where
  "detectServerPort out commandStr =
     (case first_match running_on_here out of
        Some ds \<Rightarrow> parseInt_digits ds
      | None \<Rightarrow>
          (case first_match listening_here out of
             Some ds \<Rightarrow> parseInt_digits ds
           | None \<Rightarrow>
               (case first_match port_flag_here commandStr of
                  Some ds \<Rightarrow> parseInt_digits ds
                | None \<Rightarrow>
                    if str_includes commandStr ''flask''
                       \<or> (str_includes commandStr ''python'' \<and> str_includes commandStr ''app.py'')
                    then Num 5000
                    else if str_includes commandStr ''rails'' then Num 3000
                    else if str_includes commandStr ''next'' \<or> str_includes commandStr ''vite'' then Num 3000
                    else Num 8000)))"

definition determineServerType :: "string \<Rightarrow> string" where
  "determineServerType commandStr =
     (if str_includes commandStr ''flask''
         \<or> (str_includes commandStr ''python'' \<and> str_includes commandStr ''app.py'')
      then ''Flask server''
      else if str_includes commandStr ''node'' \<or> str_includes commandStr ''npm''
              \<or> str_includes commandStr ''npx''
      then ''Node.js server''
      else if str_includes commandStr ''rails'' then ''Rails server''
      else ''Web server'')"

definition getPreviewLink :: "'r binding \<Rightarrow> js_number \<Rightarrow> 'r provider \<Rightarrow> (js_error + preview_info) \<times> 'r provider" where
  "getPreviewLink B port P =
     (case sandbox P of
        None \<Rightarrow> (Inl (new_Error ''Daytona sandbox not initialized''), P)
      | Some sb \<Rightarrow>
          if \<not> initialized P then (Inl (new_Error ''Daytona sandbox not initialized''), P)
          else if has_getPreviewLink sb
          then (case sdk_getPreviewLink B port (remote P) of (res, r') \<Rightarrow> (res, P\<lparr>remote := r'\<rparr>))
          else if sandbox_id sb = [] then (Inl (new_Error ''Sandbox ID not available''), P)
          else (Inr \<lparr>preview_url = ''https://'' @ Number_String port @ ''-'' @ sandbox_id sb @ ''.''
                                       @ take 6 (sandbox_id sb) @ ''.daytona.work'',
                      preview_token = ''auth-required''\<rparr>, P))"

definition addPreviewLink_text :: "string \<Rightarrow> preview_info \<Rightarrow> string \<Rightarrow> string" where
  "addPreviewLink_text out previewInfo serverType =
     out @ [nl, nl] @ ''====== PREVIEW LINK ======'' @ [nl]
     @ preview_url previewInfo @ [nl]
     @ ''========================='' @ [nl, nl]
     @ serverType @ '' is running and accessible at the URL above.'' @ [nl]
     @ ''(You may need authentication token: '' @ preview_token previewInfo @ '')'' @ [nl]"

definition addLocalAccessInfo :: "string \<Rightarrow> js_number \<Rightarrow> string \<Rightarrow> string \<Rightarrow> string" where
  "addLocalAccessInfo out port serverType errorMessage =
     out @ [nl, nl] @ ''====== LOCAL ACCESS ======'' @ [nl]
     @ ''http://127.0.0.1:'' @ Number_String port @ ''/'' @ [nl]
     @ ''========================='' @ [nl, nl]
     @ serverType @ '' is running locally.'' @ [nl]
     @ ''Unable to generate preview link: '' @ errorMessage"

text \<open>The object \<open>response\<close> that \<open>exec\<close> builds from the answer of the session command.\<close>

record raw_response =
  rr_result :: string
  rr_stderr :: string
  rr_exitCode :: int

text \<open>
  \<open>processCommandResponse\<close>. \<open>addPreviewLink\<close> asks for the preview link once and the
  line for stderr asks again; either may throw, and the \<open>catch\<close> then appends the local
  access text to the stdout built so far.
\<close>

definition processCommandResponse ::
  "'r binding \<Rightarrow> raw_response \<Rightarrow> string \<Rightarrow> 'r provider \<Rightarrow> ExecResult \<times> 'r provider" where
  "processCommandResponse B response commandStr P =
     (let out = rr_result response;
          port = detectServerPort out commandStr;
          serverType = determineServerType commandStr;
          localAccess = (\<lambda>so e Q.
             (\<lparr>stdout = addLocalAccessInfo so port serverType (error_String e),
               stderr = ''LOCAL ACCESS: http://127.0.0.1:'' @ Number_String port @ ''/'',
               exitCode = rr_exitCode response\<rparr>, Q))
      in if isWebServerCommand commandStr \<and> port \<noteq> Num 0 then
           (case getPreviewLink B port P of
              (Inl e, P1) \<Rightarrow> localAccess out e P1
            | (Inr previewInfo, P1) \<Rightarrow>
                (case getPreviewLink B port P1 of
                   (Inl e, P2) \<Rightarrow> localAccess (addPreviewLink_text out previewInfo serverType) e P2
                 | (Inr again, P2) \<Rightarrow>
                     (\<lparr>stdout = addPreviewLink_text out previewInfo serverType,
                       stderr = ''PREVIEW LINK: '' @ preview_url again,
                       exitCode = rr_exitCode response\<rparr>, P2)))
         else (\<lparr>stdout = out, stderr = rr_stderr response, exitCode = rr_exitCode response\<rparr>, P))"

section \<open>Session execution\<close>

record ExecInput =
  in_cmd :: "string list"
  in_workdir :: "string option"
  in_timeoutInMillis :: "nat option"

text \<open>\<open>x || d\<close> on a string that may be undefined, and the truth of such a string.\<close>

definition str_or :: "string option \<Rightarrow> string \<Rightarrow> string" where
  "str_or x d = (case x of None \<Rightarrow> d | Some v \<Rightarrow> if v = [] then d else v)"

definition truthy :: "string option \<Rightarrow> bool" where
  "truthy x = (case x of None \<Rightarrow> False | Some v \<Rightarrow> v \<noteq> [])"

definition ensureDaytonaHomeDirectory :: "'r binding \<Rightarrow> string list \<Rightarrow> 'r provider \<Rightarrow> 'r provider" where
  "ensureDaytonaHomeDirectory B argv P =
     (if list_ex (\<lambda>arg. str_includes arg ''/home/daytona'') argv then
        (case sandbox_call ''process''
                (executeCommand B (''test -d /home/daytona && echo '' @ [dq] @ ''exists'' @ [dq]
                                   @ '' || echo '' @ [dq] @ ''missing'' @ [dq])) P of
           (Inl _, P1) \<Rightarrow> P1
         | (Inr checkResult, P1) \<Rightarrow>
             if map_option trim checkResult = Some ''exists'' then P1
             else (case sandbox_call ''fs'' (fs_createFolder B ''/home/daytona'') P1 of
                     (Inr _, P2) \<Rightarrow> P2
                   | (Inl _, P2) \<Rightarrow>
                       snd (sandbox_call ''process'' (executeCommand B ''mkdir -p /home/daytona'') P2)))
      else P)"

definition defaultSessionId :: string where
  "defaultSessionId = ''default-exec-session''"

text \<open>\<open>sessionKey.replace(/[^a-zA-Z0-9]/g, '-')\<close>.\<close>

definition sanitize_key :: "string \<Rightarrow> string" where
  "sanitize_key k = map (\<lambda>c. if is_alnum c then c else CHR ''-'') k"

text \<open>
  The session acquisition of \<open>exec\<close>, at the time \<open>now\<close> of \<open>Date.now()\<close>, a
  count of milliseconds that stays below \<open>2^53\<close> and is printed digit by digit. The new
  session id is stored in \<open>sessionMap\<close> before \<open>createSession\<close> is called; when the
  call throws, the local \<open>sessionId\<close> becomes the default id, whose creation is tried
  with every error ignored.
\<close>

definition acquireSession ::
  "'r binding \<Rightarrow> nat \<Rightarrow> string option \<Rightarrow> 'r provider \<Rightarrow> string \<times> 'r provider" where
  "acquireSession B now wd P =
     (let sessionKey = str_or wd ''default''
      in if truthy (map_of (sessionMap P) sessionKey) then (str_or (map_of (sessionMap P) sessionKey) [], P)
         else
           let sessionId = ''exec-session-'' @ sanitize_key sessionKey @ ''-'' @ show_nat now;
               P1 = P\<lparr>sessionMap := AList.update sessionKey sessionId (sessionMap P)\<rparr>
           in case sandbox_call ''process'' (createSession B sessionId) P1 of
                (Inr _, P2) \<Rightarrow> (sessionId, P2)
              | (Inl _, P2) \<Rightarrow>
                  (defaultSessionId,
                   snd (sandbox_call ''process'' (createSession B defaultSessionId) P2)))"

text \<open>The string \<open>commandStr\<close> that \<open>exec\<close> submits.\<close>

definition submittedCommand :: "string option \<Rightarrow> string option \<Rightarrow> string list \<Rightarrow> js_error + string" where
  "submittedCommand rd remoteWorkdir argv =
     (case prepareCommand rd argv of
        Inl e \<Rightarrow> Inl e
      | Inr commandStr \<Rightarrow>
          Inr (if truthy remoteWorkdir then ''cd '' @ str_or remoteWorkdir [] @ '' && '' @ commandStr
               else commandStr))"

text \<open>
  The request of \<open>executeSessionCommand\<close>: the timeout, a whole number of
  milliseconds, in whole seconds (\<open>Math.floor(timeoutInMillis / 1000)\<close>), if any.
\<close>

definition session_request_of :: "string \<Rightarrow> nat option \<Rightarrow> session_request" where
  "session_request_of commandStr timeoutMs =
     \<lparr>req_command = commandStr, req_async = False,
      req_timeout = (case timeoutMs of
                       None \<Rightarrow> None
                     | Some t \<Rightarrow> if t = 0 then None else Some (floor_quotient t 1000))\<rparr>"

text \<open>
  The \<open>try\<close> block of \<open>exec\<close> up to the command string: the home directory check,
  the remote working directory, the command string. \<open>Inl\<close> is what it throws.
\<close>

definition exec_command ::
  "'r binding \<Rightarrow> host_env \<Rightarrow> ExecInput \<Rightarrow> 'r provider \<Rightarrow> (js_error + string) \<times> 'r provider" where
  "exec_command B E input P =
     (case ensure_initialized B E (ensureDaytonaHomeDirectory B (in_cmd input) P) of
        (Inl e, P1) \<Rightarrow> (Inl e, P1)
      | (Inr _, P1) \<Rightarrow>
          (case (if truthy (in_workdir input)
                 then (case mapPath E (str_or (in_workdir input) []) P1 of
                         (Inl e, Q) \<Rightarrow> (Inl e, Q)
                       | (Inr mapped, Q) \<Rightarrow> (Inr (Some mapped), Q))
                 else (Inr (rootDir P1), P1)) of
             (Inl e, P2) \<Rightarrow> (Inl e, P2)
           | (Inr remoteWorkdir, P2) \<Rightarrow>
               (case submittedCommand (rootDir P2) remoteWorkdir (in_cmd input) of
                  Inl e \<Rightarrow> (Inl e, P2)
                | Inr commandStr \<Rightarrow> (Inr commandStr, P2))))"

text \<open>Then the session: the session id and the command string that \<open>exec\<close> submits.\<close>

definition exec_prepare ::
  "'r binding \<Rightarrow> host_env \<Rightarrow> nat \<Rightarrow> ExecInput \<Rightarrow> 'r provider
     \<Rightarrow> (js_error + string \<times> string) \<times> 'r provider" where
  "exec_prepare B E now input P =
     (case exec_command B E input P of
        (Inl e, P2) \<Rightarrow> (Inl e, P2)
      | (Inr commandStr, P2) \<Rightarrow>
          (case acquireSession B now (in_workdir input) P2 of
             (sessionId, P3) \<Rightarrow> (Inr (sessionId, commandStr), P3)))"

text \<open>
  The rest of the \<open>try\<close> block: the command is executed in the session, the logs are
  fetched when the output is empty, and the response is post-processed.
\<close>

definition runInSession ::
  "'r binding \<Rightarrow> string \<Rightarrow> string \<Rightarrow> nat option \<Rightarrow> 'r provider \<Rightarrow> (js_error + ExecResult) \<times> 'r provider" where
  "runInSession B sessionId commandStr timeoutMs P =
     (case sandbox_call ''process''
             (executeSessionCommand B sessionId (session_request_of commandStr timeoutMs)) P of
        (Inl e, P1) \<Rightarrow> (Inl e, P1)
      | (Inr cmdResponse, P1) \<Rightarrow>
          let response = \<lparr>rr_result = str_or (resp_output cmdResponse) [],
                          rr_stderr = str_or (resp_error cmdResponse) [],
                          rr_exitCode = (case resp_exitCode cmdResponse of None \<Rightarrow> 0 | Some n \<Rightarrow> n)\<rparr>
          in if rr_result response = [] \<and> truthy (resp_cmdId cmdResponse) then
               (case sandbox_call ''process''
                       (getSessionCommandLogs B sessionId (str_or (resp_cmdId cmdResponse) [])) P1 of
                  (Inl _, P2) \<Rightarrow>
                    (case processCommandResponse B response commandStr P2 of (res, P3) \<Rightarrow> (Inr res, P3))
                | (Inr chunks, P2) \<Rightarrow>
                    (case processCommandResponse B (response\<lparr>rr_result := concat chunks\<rparr>) commandStr P2 of
                       (res, P3) \<Rightarrow> (Inr res, P3)))
             else (case processCommandResponse B response commandStr P1 of (res, P2) \<Rightarrow> (Inr res, P2)))"

definition exec_try ::
  "'r binding \<Rightarrow> host_env \<Rightarrow> nat \<Rightarrow> ExecInput \<Rightarrow> 'r provider \<Rightarrow> (js_error + ExecResult) \<times> 'r provider" where
  "exec_try B E now input P =
     (case exec_prepare B E now input P of
        (Inl e, P1) \<Rightarrow> (Inl e, P1)
      | (Inr (sessionId, commandStr), P3) \<Rightarrow>
          runInSession B sessionId commandStr (in_timeoutInMillis input) P3)"

text \<open>The result that the \<open>catch\<close> of \<open>exec\<close> builds from what was thrown.\<close>

definition error_result :: "js_error \<Rightarrow> ExecResult" where
  "error_result e = \<lparr>stdout = [], stderr = message_or_String e, exitCode = 1\<rparr>"

text \<open>
  \<open>exec\<close>. The initialisation stands before the \<open>try\<close>: what it throws rejects the
  promise (\<open>Inl\<close>). What the \<open>try\<close> block throws becomes a result.
\<close>

definition exec ::
  "'r binding \<Rightarrow> host_env \<Rightarrow> nat \<Rightarrow> ExecInput \<Rightarrow> 'r provider \<Rightarrow> (js_error + ExecResult) \<times> 'r provider" where
  "exec B E now input P =
     (case ensure_initialized B E P of
        (Inl e, P0) \<Rightarrow> (Inl e, P0)
      | (Inr _, P0) \<Rightarrow>
          (case exec_try B E now input P0 of
             (Inl e, P1) \<Rightarrow> (Inr (error_result e), P1)
           | (Inr res, P1) \<Rightarrow> (Inr res, P1)))"

text \<open>
  The characters of a plain token (alphanumerics and dashes), the argument vectors made
  of plain tokens, and the trigger words that a string joined from plain tokens can
  contain.
\<close>

definition plain_char :: "char \<Rightarrow> bool" where
  "plain_char c = (is_alnum c \<or> c = CHR ''-'')"

definition plain_argv :: "string list \<Rightarrow> bool" where
  "plain_argv argv = list_all (list_all plain_char) argv"

definition trigger_words :: "string list" where
  "trigger_words = [''nohup '', ''echo'', ''which'', ''find'', ''grep'', ''flask run'']"

text \<open>What \<open>applyPatch\<close> checks of the top and bottom markers before it processes a patch.\<close>

definition well_marked :: "string \<Rightarrow> bool" where
  "well_marked patchText =
     (startsWith (hd (patch_lines patchText)) ''*** Begin Patch''
      \<and> last (patch_lines patchText) = ''*** End Patch'')"

text \<open>
  The lines that close an \<open>*** Add File:\<close> block in \<open>processPatches\<close>, and what the
  log of a patch says of a deleted and of an added file.
\<close>

definition terminator_line :: "string \<Rightarrow> bool" where
  "terminator_line line =
     (startsWith line ''*** End of File'' \<or> startsWith line ''*** Update File:''
      \<or> startsWith line ''*** Delete File:'')"

definition reports_delete :: "string \<Rightarrow> string \<Rightarrow> bool" where
  "reports_delete out filePath =
     (str_includes out (''Deleted '' @ filePath @ [nl])
      \<or> str_includes out (''Error deleting '' @ filePath @ '': ''))"

definition reports_add :: "string \<Rightarrow> string \<Rightarrow> bool" where
  "reports_add out filePath =
     (str_includes out (''Created '' @ filePath @ [nl])
      \<or> str_includes out (''Created '' @ filePath @ '' (using echo fallback)'' @ [nl])
      \<or> str_includes out (''Error creating '' @ filePath @ '': ''))"

text \<open>What \<open>processPatches\<close> returns, from the state that the loop leaves.\<close>

definition finish :: "'r binding \<Rightarrow> host_env \<Rightarrow> patch_state \<times> 'r provider \<Rightarrow> string" where
  "finish B E sp =
     (if addingFile (fst sp) \<and> currentFilePath (fst sp) \<noteq> []
      then fst (saveAddedFile B E (currentFilePath (fst sp)) (currentFileContent (fst sp))
                  (successOutput (fst sp)) (snd sp))
      else successOutput (fst sp))"


section \<open>Concrete remotes and inputs\<close>

text \<open>
  A host whose home is \<open>/Users/alice\<close>, and a remote on which every call succeeds,
  every one-shot command answers \<open>exists\<close>, and whose state is the list of the
  calls it has received.
\<close>

definition demo_env :: host_env where
  "demo_env =
     \<lparr>homeDir = ''/Users/alice'', workingDir = ''/Users/alice/proj'', env_API_KEY = Some ''key'',
      env_API_URL = None, env_TARGET = None, env_AUTO_STOP_INTERVAL = None\<rparr>"

definition recording_binding :: "string list binding" where
  "recording_binding =
     \<lparr>sdk_create = (\<lambda>cfg r. (Inr (Some \<lparr>sandbox_id = ''sbx'', has_getPreviewLink = False\<rparr>), r @ [''create''])),
      sdk_remove = (\<lambda>r. (Inr (), r @ [''remove''])),
      getUserRootDir = (\<lambda>r. (Inr (Some ''/home/daytona''), r)),
      fs_createFolder = (\<lambda>p r. (Inr (), r @ [''createFolder '' @ p])),
      fs_uploadFile = (\<lambda>p n c r. (Inr (), r @ [''uploadFile '' @ p])),
      fs_deleteFile = (\<lambda>p r. (Inr (), r @ [''deleteFile '' @ p])),
      executeCommand = (\<lambda>c r. (Inr (Some ''exists''), r @ [''executeCommand '' @ c])),
      createSession = (\<lambda>s r. (Inr (), r @ [''createSession '' @ s])),
      executeSessionCommand =
        (\<lambda>s q r. (Inr \<lparr>resp_output = Some ''out'', resp_error = None, resp_exitCode = Some 0,
                        resp_cmdId = None\<rparr>,
                   r @ [''executeSessionCommand '' @ s @ '' '' @ req_command q])),
      getSessionCommandLogs = (\<lambda>s c r. (Inr [], r)),
      deleteSession = (\<lambda>s r. (Inr (), r @ [''deleteSession '' @ s])),
      sdk_getPreviewLink = (\<lambda>n r. (Inl (new_Error ''no preview''), r))\<rparr>"

definition fresh_provider :: "string list provider" where
  "fresh_provider =
     \<lparr>daytona = False, sandbox = None, initialized = False, pathMapping = [], rootDir = None,
      initPromise = None, sessionMap = [], remote = []\<rparr>"

definition patch_hello :: string where
  "patch_hello =
     ''*** Begin Patch'' @ [nl] @
     ''*** Add File: hello.py'' @ [nl] @
     ''+print('' @ [dq] @ ''hi'' @ [dq] @ '')'' @ [nl] @
     ''*** End of File'' @ [nl] @
     ''*** End Patch''"

definition patch_two_adds :: string where
  "patch_two_adds =
     ''*** Begin Patch'' @ [nl] @
     ''*** Add File: a.txt'' @ [nl] @
     ''+1'' @ [nl] @
     ''*** Add File: b.txt'' @ [nl] @
     ''+2'' @ [nl] @
     ''*** End Patch''"

text \<open>
  An initialised provider; a remote that refuses every new session; a remote on which
  every session command throws.
\<close>

definition ready_provider :: "string list provider" where
  "ready_provider =
     \<lparr>daytona = True, sandbox = Some \<lparr>sandbox_id = ''sbx'', has_getPreviewLink = False\<rparr>,
      initialized = True, pathMapping = [], rootDir = Some ''/home/daytona'',
      initPromise = Some (Inr ()), sessionMap = [], remote = []\<rparr>"

definition no_session_binding :: "string list binding" where
  "no_session_binding =
     recording_binding\<lparr>createSession :=
       (\<lambda>s r. (Inl (new_Error ''session limit reached''), r @ [''createSession '' @ s @ '' failed'']))\<rparr>"


definition ls_input :: ExecInput where
  "ls_input = \<lparr>in_cmd = [''ls''], in_workdir = None, in_timeoutInMillis = None\<rparr>"


text \<open>
  A patch text with white space around it; a patch that adds one file and deletes
  another; a remote that refuses every deletion; a remote that answers every session
  command with no output, a command id and exit code 3, and whose log retrieval throws.
\<close>

definition padded_patch :: string where
  "padded_patch =
     ''  *** Begin Patch'' @ [nl] @
     ''*** Delete File: x'' @ [nl] @
     ''*** End Patch  ''"

definition patch_add_delete :: string where
  "patch_add_delete =
     ''*** Begin Patch'' @ [nl] @
     ''*** Add File: hello.py'' @ [nl] @
     ''+print('' @ [dq] @ ''hi'' @ [dq] @ '')'' @ [nl] @
     ''*** Delete File: old.txt'' @ [nl] @
     ''*** End Patch''"

definition no_delete_binding :: "string list binding" where
  "no_delete_binding =
     recording_binding\<lparr>fs_deleteFile := (\<lambda>p r. (Inl (new_Error ''permission denied''), r))\<rparr>"


section \<open>Properties\<close>

subsection \<open>The steps of \<open>exec\<close>\<close>

lemma sandbox_call_fields [simp]:
  "sandbox (snd (sandbox_call prop f P)) = sandbox P"
  "initialized (snd (sandbox_call prop f P)) = initialized P"
  "rootDir (snd (sandbox_call prop f P)) = rootDir P"
  by (simp_all add: sandbox_call_def split: option.splits prod.splits)












subsection \<open>Patch application\<close>

lemma startsWith_self_append: "startsWith (p @ t) p"
  by (simp add: startsWith_def)

lemma startsWith_extend: "startsWith s p \<Longrightarrow> startsWith (s @ t) p"
proof -
  assume a: "startsWith s p"
  then have "length (take (length p) s) = length p"
    by (simp only: startsWith_def)
  then have "length p \<le> length s"
    by simp
  with a show ?thesis by (simp add: startsWith_def)
qed

lemma str_includes_empty: "str_includes s []"
  by (cases s) (simp_all add: startsWith_def)

lemma str_includes_extend: "str_includes s p \<Longrightarrow> str_includes (s @ t) p"
proof (induction s)
  case Nil
  then show ?case by (simp add: str_includes_empty)
next
  case (Cons c cs)
  then show ?case
    using startsWith_extend [of "c # cs" p t] by auto
qed

lemma str_includes_after: "str_includes t p \<Longrightarrow> str_includes (s @ t) p"
  by (induction s) auto

lemma str_includes_prefix: "str_includes (p @ t) p"
proof (cases "p @ t")
  case Nil
  then show ?thesis by simp
next
  case (Cons c cs)
  then show ?thesis
    using startsWith_self_append [of p t] by simp
qed

lemma saveAddedFile_cases:
  "fst (saveAddedFile B E p c out P) = out @ ''Created '' @ p @ [nl]
   \<or> fst (saveAddedFile B E p c out P) = out @ ''Created '' @ p @ '' (using echo fallback)'' @ [nl]
   \<or> (\<exists>e. fst (saveAddedFile B E p c out P) = out @ ''Error creating '' @ p @ '': '' @ error_String e @ [nl])"
  unfolding saveAddedFile_def Let_def
  by (auto split: prod.splits sum.splits)

lemma saveAddedFile_reports:
  "\<exists>line. fst (saveAddedFile B E p c out P) = out @ line \<and> reports_add line p"
proof -
  have 1: "reports_add (''Created '' @ p @ [nl]) p"
    using str_includes_prefix [of "''Created '' @ p @ [nl]" "[]"] by (simp add: reports_add_def)
  have 2: "reports_add (''Created '' @ p @ '' (using echo fallback)'' @ [nl]) p"
    using str_includes_prefix [of "''Created '' @ p @ '' (using echo fallback)'' @ [nl]" "[]"]
    by (simp add: reports_add_def)
  have 3: "reports_add (''Error creating '' @ p @ '': '' @ error_String e @ [nl]) p" for e
    using str_includes_prefix [of "''Error creating '' @ p @ '': ''" "error_String e @ [nl]"]
    by (simp add: reports_add_def)
  show ?thesis
    using saveAddedFile_cases [of B E p c out P] 1 2 3 by (elim disjE exE) blast+
qed

lemma deleteFile_cases:
  "fst (deleteFile B E p out P) = out @ ''Deleted '' @ p @ [nl]
   \<or> (\<exists>e. fst (deleteFile B E p out P) = out @ ''Error deleting '' @ p @ '': '' @ error_String e @ [nl])"
  unfolding deleteFile_def Let_def
  by (auto split: prod.splits sum.splits)

lemma deleteFile_reports:
  "\<exists>line. fst (deleteFile B E p out P) = out @ line \<and> reports_delete line p"
proof -
  have 1: "reports_delete (''Deleted '' @ p @ [nl]) p"
    using str_includes_prefix [of "''Deleted '' @ p @ [nl]" "[]"] by (simp add: reports_delete_def)
  have 2: "reports_delete (''Error deleting '' @ p @ '': '' @ error_String e @ [nl]) p" for e
    using str_includes_prefix [of "''Error deleting '' @ p @ '': ''" "error_String e @ [nl]"]
    by (simp add: reports_delete_def)
  show ?thesis
    using deleteFile_cases [of B E p out P] 1 2 by (elim disjE exE) blast+
qed

lemma startsWith_append: "startsWith s (p @ q) \<Longrightarrow> startsWith s p"
proof -
  assume "startsWith s (p @ q)"
  then have "take (length p) (take (length (p @ q)) s) = take (length p) (p @ q)"
    by (simp add: startsWith_def)
  then show ?thesis by (simp add: startsWith_def min_def)
qed

lemma terminator_not_add:
  assumes "terminator_line line"
  shows "\<not> startsWith line ''*** Add File: ''" and "\<not> startsWith line ''+''"
proof -
  have "startsWith line (''*** E'' @ ''nd of File'') \<or> startsWith line (''*** U'' @ ''pdate File:'')
        \<or> startsWith line (''*** D'' @ ''elete File:'')"
    using assms by (simp add: terminator_line_def)
  then have t: "startsWith line ''*** E'' \<or> startsWith line ''*** U'' \<or> startsWith line ''*** D''"
    using startsWith_append by blast
  have a: "startsWith line ''*** A''" if "startsWith line ''*** Add File: ''"
  proof -
    have "startsWith line (''*** A'' @ ''dd File: '')" using that by simp
    then show ?thesis by (rule startsWith_append)
  qed
  have s: "startsWith line ''*''"
  proof -
    have "startsWith line (''*'' @ ''** E'') \<or> startsWith line (''*'' @ ''** U'')
          \<or> startsWith line (''*'' @ ''** D'')"
      using t by simp
    then show ?thesis using startsWith_append by blast
  qed
  show "\<not> startsWith line ''*** Add File: ''"
    using t a by (auto simp: startsWith_def)
  show "\<not> startsWith line ''+''"
    using s by (auto simp: startsWith_def)
qed

lemma processLine_add:
  assumes "startsWith line ''*** Add File: ''"
  shows "currentFilePath (fst (processLine B E line st P)) = drop (length ''*** Add File: '') line"
    and "addingFile (fst (processLine B E line st P))"
    and "successOutput (fst (processLine B E line st P)) = successOutput st"
  using assms
  by (cases "saveAddedFile B E (currentFilePath st) (currentFileContent st) (successOutput st) P";
      simp add: processLine_def)+

lemma processLine_body:
  assumes "\<not> startsWith line ''*** Add File: ''" and "\<not> terminator_line line"
  shows "currentFilePath (fst (processLine B E line st P)) = currentFilePath st"
    and "addingFile (fst (processLine B E line st P)) = addingFile st"
    and "successOutput (fst (processLine B E line st P)) = successOutput st"
  using assms by (simp_all add: processLine_def terminator_line_def)

lemma processLine_terminator:
  assumes "terminator_line line" and "addingFile st" and "currentFilePath st \<noteq> []"
  shows "\<exists>l more. successOutput (fst (processLine B E line st P)) = successOutput st @ l @ more
                  \<and> reports_add l (currentFilePath st)"
proof -
  obtain o1 Q1 where s: "saveAddedFile B E (currentFilePath st) (currentFileContent st) (successOutput st) P = (o1, Q1)"
    by (cases "saveAddedFile B E (currentFilePath st) (currentFileContent st) (successOutput st) P")
  obtain l where l: "o1 = successOutput st @ l" "reports_add l (currentFilePath st)"
    using saveAddedFile_reports [of B E "currentFilePath st" "currentFileContent st" "successOutput st" P] s
    by auto
  obtain o2 Q2 where d: "deleteFile B E (drop (length ''*** Delete File: '') line) o1 Q1 = (o2, Q2)"
    by (cases "deleteFile B E (drop (length ''*** Delete File: '') line) o1 Q1")
  obtain m where m: "o2 = o1 @ m"
    using deleteFile_reports [of B E "drop (length ''*** Delete File: '') line" o1 Q1] d by auto
  have n: "\<not> startsWith line ''*** Add File: ''" "\<not> startsWith line ''+''"
    using terminator_not_add [OF assms(1)] by simp_all
  have t: "startsWith line ''*** End of File'' \<or> startsWith line ''*** Update File:''
           \<or> startsWith line ''*** Delete File:''"
    using assms(1) by (simp add: terminator_line_def)
  have "successOutput (fst (processLine B E line st P))
        = (if startsWith line ''*** Delete File: '' then o2 else o1)"
    unfolding processLine_def using n t assms(2,3) s d by simp
  then show ?thesis
    using l m by (cases "startsWith line ''*** Delete File: ''") auto
qed

lemma processLine_delete:
  assumes "startsWith line ''*** Delete File: ''"
  shows "\<exists>pre l. successOutput (fst (processLine B E line st P)) = successOutput st @ pre @ l
                 \<and> reports_delete l (drop (length ''*** Delete File: '') line)"
proof -
  have "startsWith line (''*** Delete File:'' @ '' '')"
    using assms by simp
  then have c: "startsWith line ''*** Delete File:''"
    by (rule startsWith_append)
  then have tl: "terminator_line line"
    by (simp add: terminator_line_def)
  have n: "\<not> startsWith line ''*** Add File: ''" "\<not> startsWith line ''+''"
    using terminator_not_add [OF tl] by simp_all
  obtain o1 Q1 where s: "saveAddedFile B E (currentFilePath st) (currentFileContent st) (successOutput st) P = (o1, Q1)"
    by (cases "saveAddedFile B E (currentFilePath st) (currentFileContent st) (successOutput st) P")
  obtain pre where pre: "o1 = successOutput st @ pre"
    using saveAddedFile_reports [of B E "currentFilePath st" "currentFileContent st" "successOutput st" P] s
    by auto
  let ?p = "drop (length ''*** Delete File: '') line"
  show ?thesis
  proof (cases "addingFile st \<and> currentFilePath st \<noteq> []")
    case True
    obtain o2 Q2 where d: "deleteFile B E ?p o1 Q1 = (o2, Q2)"
      by (cases "deleteFile B E ?p o1 Q1")
    obtain l where l: "o2 = o1 @ l" "reports_delete l ?p"
      using deleteFile_reports [of B E ?p o1 Q1] d by auto
    have "successOutput (fst (processLine B E line st P)) = o2"
      unfolding processLine_def using n c assms True s d by simp
    then show ?thesis using l pre by auto
  next
    case False
    obtain o2 Q2 where d: "deleteFile B E ?p (successOutput st) P = (o2, Q2)"
      by (cases "deleteFile B E ?p (successOutput st) P")
    obtain l where l: "o2 = successOutput st @ l" "reports_delete l ?p"
      using deleteFile_reports [of B E ?p "successOutput st" P] d by auto
    have "successOutput (fst (processLine B E line st P)) = o2"
      unfolding processLine_def using n c assms False d by auto
    then show ?thesis using l by (intro exI [of _ "[]"] exI [of _ l]) simp
  qed
qed

lemma processLine_grows:
  "\<exists>more. successOutput (fst (processLine B E line st P)) = successOutput st @ more"
proof (cases "startsWith line ''*** Add File: ''")
  case True
  then show ?thesis using processLine_add(3) [OF True, of B E st P] by simp
next
  case a: False
  show ?thesis
  proof (cases "terminator_line line")
    case False
    then show ?thesis using processLine_body(3) [OF a False, of B E st P] by simp
  next
    case True
    show ?thesis
    proof (cases "addingFile st \<and> currentFilePath st \<noteq> []")
      case t: True
      then show ?thesis using processLine_terminator [OF True, of st B E P] by auto
    next
      case f: False
      show ?thesis
      proof (cases "startsWith line ''*** Delete File: ''")
        case True
        then show ?thesis using processLine_delete [OF True, of B E st P] by auto
      next
        case False
        have n: "\<not> startsWith line ''*** Add File: ''" "\<not> startsWith line ''+''"
          using terminator_not_add [OF True] by simp_all
        have "successOutput (fst (processLine B E line st P)) = successOutput st"
          unfolding processLine_def using n f False by auto
        then show ?thesis by simp
      qed
    qed
  qed
qed

lemma processLines_append:
  "processLines B E (xs @ ys) st P =
     processLines B E ys (fst (processLines B E xs st P)) (snd (processLines B E xs st P))"
  by (induction xs arbitrary: st P) (simp_all split: prod.splits)

lemma processLines_Cons:
  "processLines B E (x # xs) st P =
     processLines B E xs (fst (processLine B E x st P)) (snd (processLine B E x st P))"
  by (simp split: prod.splits)

lemma processLines_grows:
  "\<exists>more. successOutput (fst (processLines B E ls st P)) = successOutput st @ more"
proof (induction ls arbitrary: st P)
  case Nil
  then show ?case by simp
next
  case (Cons x xs)
  obtain m1 where 1: "successOutput (fst (processLine B E x st P)) = successOutput st @ m1"
    using processLine_grows by blast
  obtain m2 where "successOutput (fst (processLines B E xs (fst (processLine B E x st P))
                                         (snd (processLine B E x st P))))
                   = successOutput (fst (processLine B E x st P)) @ m2"
    using Cons.IH by blast
  then show ?case
    unfolding processLines_Cons using 1 by simp
qed

lemma processLines_body:
  assumes "list_all (\<lambda>l. \<not> startsWith l ''*** Add File: '' \<and> \<not> terminator_line l) body"
  shows "currentFilePath (fst (processLines B E body st P)) = currentFilePath st
       \<and> addingFile (fst (processLines B E body st P)) = addingFile st
       \<and> successOutput (fst (processLines B E body st P)) = successOutput st"
  using assms
proof (induction body arbitrary: st P)
  case Nil
  then show ?case by simp
next
  case (Cons x xs)
  have x: "\<not> startsWith x ''*** Add File: ''" "\<not> terminator_line x"
    using Cons.prems by simp_all
  have xs: "list_all (\<lambda>l. \<not> startsWith l ''*** Add File: '' \<and> \<not> terminator_line l) xs"
    using Cons.prems by simp
  show ?case
    unfolding processLines_Cons
    using Cons.IH [OF xs, of "fst (processLine B E x st P)" "snd (processLine B E x st P)"]
      processLine_body [OF x, of B E st P]
    by simp
qed

lemma processPatches_finish:
  "fst (processPatches B E lines P) =
     finish B E (processLines B E (butlast (tl lines))
       \<lparr>currentFilePath = [], currentFileContent = [], addingFile = False, successOutput = []\<rparr> P)"
  by (simp add: processPatches_def finish_def split: prod.splits)

lemma finish_grows: "\<exists>more. finish B E (st, P) = successOutput st @ more"
  using saveAddedFile_reports [of B E "currentFilePath st" "currentFileContent st" "successOutput st" P]
  by (auto simp: finish_def)

lemma finish_delete:
  assumes "line \<in> set ls" and "startsWith line ''*** Delete File: ''"
  shows "reports_delete (finish B E (processLines B E ls st P)) (drop (length ''*** Delete File: '') line)"
proof -
  obtain xs ys where ls: "ls = xs @ line # ys"
    using assms(1) by (meson split_list)
  define s1 where "s1 = processLines B E xs st P"
  define s2 where "s2 = processLine B E line (fst s1) (snd s1)"
  define s3 where "s3 = processLines B E ys (fst s2) (snd s2)"
  have e: "processLines B E ls st P = s3"
    unfolding ls processLines_append processLines_Cons s1_def s2_def s3_def by simp
  obtain pre l where l: "successOutput (fst s2) = successOutput (fst s1) @ pre @ l"
      "reports_delete l (drop (length ''*** Delete File: '') line)"
    using processLine_delete [OF assms(2), of B E "fst s1" "snd s1"] s2_def by auto
  obtain m1 where m1: "successOutput (fst s3) = successOutput (fst s2) @ m1"
    using processLines_grows [of B E ys "fst s2" "snd s2"] s3_def by auto
  obtain m2 where m2: "finish B E s3 = successOutput (fst s3) @ m2"
    using finish_grows [of B E "fst s3" "snd s3"] by auto
  have "finish B E s3 = (successOutput (fst s1) @ pre) @ l @ (m1 @ m2)"
    using l(1) m1 m2 by simp
  moreover have "reports_delete ((successOutput (fst s1) @ pre) @ l @ (m1 @ m2))
                   (drop (length ''*** Delete File: '') line)"
    using l(2) str_includes_after str_includes_extend
    unfolding reports_delete_def by blast
  ultimately show ?thesis
    using e by simp
qed

lemma finish_add:
  assumes "ls = pre @ line # body @ rest"
    and "startsWith line ''*** Add File: ''" and "drop (length ''*** Add File: '') line \<noteq> []"
    and "list_all (\<lambda>l. \<not> startsWith l ''*** Add File: '' \<and> \<not> terminator_line l) body"
    and "rest = [] \<or> terminator_line (hd rest)"
  shows "reports_add (finish B E (processLines B E ls st P)) (drop (length ''*** Add File: '') line)"
proof -
  let ?p = "drop (length ''*** Add File: '') line"
  define s1 where "s1 = processLines B E pre st P"
  define s2 where "s2 = processLine B E line (fst s1) (snd s1)"
  define s3 where "s3 = processLines B E body (fst s2) (snd s2)"
  define s4 where "s4 = processLines B E rest (fst s3) (snd s3)"
  have e: "processLines B E ls st P = s4"
    unfolding assms(1) processLines_append processLines_Cons s1_def s2_def s3_def s4_def by simp
  have 2: "currentFilePath (fst s2) = ?p" "addingFile (fst s2)"
    using processLine_add [OF assms(2), of B E "fst s1" "snd s1"] s2_def by simp_all
  have 3: "currentFilePath (fst s3) = ?p" "addingFile (fst s3)"
    using processLines_body [OF assms(4), of B E "fst s2" "snd s2"] 2 s3_def by simp_all
  have "\<exists>a l b. finish B E s4 = a @ l @ b \<and> reports_add l ?p"
  proof (cases rest)
    case Nil
    then have "s4 = s3" by (simp add: s4_def)
    moreover obtain l where "finish B E s3 = successOutput (fst s3) @ l" "reports_add l ?p"
      using saveAddedFile_reports [of B E ?p "currentFileContent (fst s3)" "successOutput (fst s3)" "snd s3"]
        3 assms(3) by (auto simp: finish_def)
    ultimately show ?thesis
      by (intro exI [of _ "successOutput (fst s3)"] exI [of _ l] exI [of _ "[]"]) simp
  next
    case (Cons t ts)
    define s5 where "s5 = processLine B E t (fst s3) (snd s3)"
    have t: "terminator_line t" using assms(5) Cons by simp
    have s4: "s4 = processLines B E ts (fst s5) (snd s5)"
      unfolding s4_def Cons processLines_Cons s5_def by simp
    obtain l m0 where l: "successOutput (fst s5) = successOutput (fst s3) @ l @ m0" "reports_add l ?p"
      using processLine_terminator [OF t 3(2), of B E "snd s3"] 3(1) assms(3) s5_def by auto
    obtain m1 where m1: "successOutput (fst s4) = successOutput (fst s5) @ m1"
      using processLines_grows [of B E ts "fst s5" "snd s5"] s4 by auto
    obtain m2 where m2: "finish B E s4 = successOutput (fst s4) @ m2"
      using finish_grows [of B E "fst s4" "snd s4"] by auto
    have "finish B E s4 = successOutput (fst s3) @ l @ (m0 @ m1 @ m2)"
      using l(1) m1 m2 by simp
    then show ?thesis using l(2) by blast
  qed
  then obtain a l b where f: "finish B E s4 = a @ l @ b" "reports_add l ?p"
    by blast
  have "reports_add (a @ l @ b) ?p"
    using f(2) str_includes_after str_includes_extend
    unfolding reports_add_def by blast
  then show ?thesis
    using e f(1) by simp
qed

text \<open>
  Claim C2, as stated, fails. The first line of the text below is \<open>  *** Begin Patch\<close>
  and its last line is \<open>*** End Patch  \<close>, so neither marker is as the claim asks; yet
  \<open>applyPatch\<close>, which trims the text before it splits it into lines, deletes the
  file and returns exit code 0. And on a provider that is not initialised, with no API
  key in the environment, \<open>applyPatch\<close> returns no result: it throws.
\<close>

theorem applyPatch_markers_counterexample:
  "\<not> startsWith (hd (split_on nl padded_patch)) ''*** Begin Patch''
   \<and> last (split_on nl padded_patch) \<noteq> ''*** End Patch''
   \<and> fst (applyPatch recording_binding demo_env padded_patch ready_provider)
       = Inr \<lparr>stdout = ''Deleted x'' @ [nl], stderr = [], exitCode = 0\<rparr>
   \<and> fst (applyPatch recording_binding (demo_env\<lparr>env_API_KEY := None\<rparr>) patch_hello fresh_provider)
       = Inl (new_Error ''DAYTONA_API_KEY environment variable not set'')"
  by code_simp

text \<open>
  Claim C2, amended. When the initialisation that opens \<open>applyPatch\<close> does not fail,
  for every remote and every patch text, the markers are tested on the lines of the
  trimmed text. When the first of them starts with \<open>*** Begin Patch\<close> and the last is
  exactly \<open>*** End Patch\<close>, \<open>applyPatch\<close> returns exit code 0, an empty stderr, and
  as stdout the log of the file operations, or \<open>Patch applied successfully\<close> when the
  log is empty, whatever the single file operations did. In that stdout every
  \<open>*** Delete File: \<close> line between the markers has its line \<open>Deleted p\<close> or
  \<open>Error deleting p: ...\<close>, and every \<open>*** Add File: \<close> block with a path that is
  closed by a terminator line (\<open>*** End of File\<close>, \<open>*** Update File:\<close>,
  \<open>*** Delete File:\<close>) or by the end of the patch has its line \<open>Created p\<close>,
  \<open>Created p (using echo fallback)\<close> or \<open>Error creating p: ...\<close>. Otherwise
  \<open>applyPatch\<close> returns exit code 1, \<open>Invalid patch format\<close> in stderr and an empty
  stdout.
\<close>

theorem applyPatch_markers:
  assumes "fst (ensure_initialized B E P) = Inr ()"
  shows "(\<not> well_marked patchText \<longrightarrow>
            fst (applyPatch B E patchText P)
              = Inr \<lparr>stdout = [], stderr = ''Invalid patch format'', exitCode = 1\<rparr>)
       \<and> (well_marked patchText \<longrightarrow>
            (\<exists>out. fst (applyPatch B E patchText P) = Inr \<lparr>stdout = out, stderr = [], exitCode = 0\<rparr>
               \<and> out = (let log = fst (processPatches B E (patch_lines patchText)
                                          (snd (ensure_initialized B E P)))
                         in if log = [] then ''Patch applied successfully'' else log)
               \<and> list_all (\<lambda>line. startsWith line ''*** Delete File: ''
                                    \<longrightarrow> reports_delete out (drop (length ''*** Delete File: '') line))
                     (butlast (tl (patch_lines patchText)))
               \<and> (\<forall>pre line body rest.
                     butlast (tl (patch_lines patchText)) = pre @ line # body @ rest
                     \<and> startsWith line ''*** Add File: '' \<and> drop (length ''*** Add File: '') line \<noteq> []
                     \<and> list_all (\<lambda>l. \<not> startsWith l ''*** Add File: '' \<and> \<not> terminator_line l) body
                     \<and> (rest = [] \<or> terminator_line (hd rest))
                     \<longrightarrow> reports_add out (drop (length ''*** Add File: '') line))))"
proof (intro conjI impI)
  obtain P0 where i: "ensure_initialized B E P = (Inr (), P0)"
    using assms by (cases "ensure_initialized B E P") simp
  {
    assume "\<not> well_marked patchText"
    then show "fst (applyPatch B E patchText P)
                = Inr \<lparr>stdout = [], stderr = ''Invalid patch format'', exitCode = 1\<rparr>"
      by (simp add: applyPatch_def i well_marked_def Let_def message_or_String_def new_Error_def)
  }
  assume w: "well_marked patchText"
  define body where "body = butlast (tl (patch_lines patchText))"
  define start where
    "start = \<lparr>currentFilePath = [], currentFileContent = [], addingFile = False, successOutput = []\<rparr>"
  define log where "log = fst (processPatches B E (patch_lines patchText) P0)"
  define out where "out = (if log = [] then ''Patch applied successfully'' else log)"
  have f: "log = finish B E (processLines B E body start P0)"
    by (simp add: log_def processPatches_finish body_def start_def)
  have a: "fst (applyPatch B E patchText P) = Inr \<lparr>stdout = out, stderr = [], exitCode = 0\<rparr>"
    using w by (simp add: applyPatch_def i well_marked_def Let_def out_def log_def split: prod.splits)
  have d: "reports_delete out (drop (length ''*** Delete File: '') line)"
    if "line \<in> set body" "startsWith line ''*** Delete File: ''" for line
  proof -
    have r: "reports_delete log (drop (length ''*** Delete File: '') line)"
      unfolding f using that by (rule finish_delete)
    then have "log \<noteq> []"
      by (auto simp: reports_delete_def)
    with r show ?thesis by (simp add: out_def)
  qed
  have c: "reports_add out (drop (length ''*** Add File: '') line)"
    if "body = pre @ line # rest0 @ rest"
      "startsWith line ''*** Add File: ''" "drop (length ''*** Add File: '') line \<noteq> []"
      "list_all (\<lambda>l. \<not> startsWith l ''*** Add File: '' \<and> \<not> terminator_line l) rest0"
      "rest = [] \<or> terminator_line (hd rest)" for pre line rest0 rest
  proof -
    have r: "reports_add log (drop (length ''*** Add File: '') line)"
      unfolding f using that by (rule finish_add)
    then have "log \<noteq> []"
      by (auto simp: reports_add_def)
    with r show ?thesis by (simp add: out_def)
  qed
  show "\<exists>out. fst (applyPatch B E patchText P) = Inr \<lparr>stdout = out, stderr = [], exitCode = 0\<rparr>
           \<and> out = (let log = fst (processPatches B E (patch_lines patchText)
                                      (snd (ensure_initialized B E P)))
                     in if log = [] then ''Patch applied successfully'' else log)
           \<and> list_all (\<lambda>line. startsWith line ''*** Delete File: ''
                                \<longrightarrow> reports_delete out (drop (length ''*** Delete File: '') line))
                 (butlast (tl (patch_lines patchText)))
           \<and> (\<forall>pre line body rest.
                 butlast (tl (patch_lines patchText)) = pre @ line # body @ rest
                 \<and> startsWith line ''*** Add File: '' \<and> drop (length ''*** Add File: '') line \<noteq> []
                 \<and> list_all (\<lambda>l. \<not> startsWith l ''*** Add File: '' \<and> \<not> terminator_line l) body
                 \<and> (rest = [] \<or> terminator_line (hd rest))
                 \<longrightarrow> reports_add out (drop (length ''*** Add File: '') line))"
  proof (intro exI [of _ out] conjI allI impI)
    show "fst (applyPatch B E patchText P) = Inr \<lparr>stdout = out, stderr = [], exitCode = 0\<rparr>"
      by (rule a)
    show "out = (let log = fst (processPatches B E (patch_lines patchText)
                                  (snd (ensure_initialized B E P)))
                 in if log = [] then ''Patch applied successfully'' else log)"
      by (simp add: out_def log_def i Let_def)
    show "list_all (\<lambda>line. startsWith line ''*** Delete File: ''
                           \<longrightarrow> reports_delete out (drop (length ''*** Delete File: '') line))
            (butlast (tl (patch_lines patchText)))"
      using d unfolding body_def list_all_iff by blast
  next
    fix pre line rest0 rest
    assume "butlast (tl (patch_lines patchText)) = pre @ line # rest0 @ rest
            \<and> startsWith line ''*** Add File: '' \<and> drop (length ''*** Add File: '') line \<noteq> []
            \<and> list_all (\<lambda>l. \<not> startsWith l ''*** Add File: '' \<and> \<not> terminator_line l) rest0
            \<and> (rest = [] \<or> terminator_line (hd rest))"
    then show "reports_add out (drop (length ''*** Add File: '') line)"
      using c [of pre line rest0 rest] unfolding body_def by blast
  qed
qed

theorem applyPatch_markers_witness:
  "fst (ensure_initialized no_delete_binding demo_env fresh_provider) = Inr ()
   \<and> \<not> well_marked ''*** Begin Patch''
   \<and> fst (applyPatch no_delete_binding demo_env ''*** Begin Patch'' fresh_provider)
       = Inr \<lparr>stdout = [], stderr = ''Invalid patch format'', exitCode = 1\<rparr>
   \<and> well_marked patch_add_delete
   \<and> (\<exists>out. fst (applyPatch no_delete_binding demo_env patch_add_delete fresh_provider)
               = Inr \<lparr>stdout = out, stderr = [], exitCode = 0\<rparr>
            \<and> reports_add out ''hello.py'' \<and> reports_delete out ''old.txt'')
   \<and> fst (applyPatch no_delete_binding demo_env patch_add_delete fresh_provider)
       = Inr \<lparr>stdout = ''Created hello.py'' @ [nl] @ ''Error deleting old.txt: Error: permission denied'' @ [nl],
              stderr = [], exitCode = 0\<rparr>"
proof -
  let ?add = "''*** Add File: hello.py''"
  let ?del = "''*** Delete File: old.txt''"
  let ?plus = "''+print'' @ ''('' @ [dq] @ ''hi'' @ [dq] @ '')''"
  have ready: "fst (ensure_initialized no_delete_binding demo_env fresh_provider) = Inr ()"
    by code_simp
  have marked: "well_marked patch_add_delete" "\<not> well_marked ''*** Begin Patch''"
    by code_simp+
  have body: "butlast (tl (patch_lines patch_add_delete)) = [] @ ?add # [?plus] @ [?del]"
    by code_simp
  have parts: "startsWith ?add ''*** Add File: ''" "drop (length ''*** Add File: '') ?add = ''hello.py''"
    "list_all (\<lambda>l. \<not> startsWith l ''*** Add File: '' \<and> \<not> terminator_line l) [?plus]"
    "terminator_line (hd [?del])"
    "startsWith ?del ''*** Delete File: ''" "drop (length ''*** Delete File: '') ?del = ''old.txt''"
    by code_simp+
  have full: "fst (applyPatch no_delete_binding demo_env patch_add_delete fresh_provider)
       = Inr \<lparr>stdout = ''Created hello.py'' @ [nl] @ ''Error deleting old.txt: Error: permission denied'' @ [nl],
              stderr = [], exitCode = 0\<rparr>"
    by code_simp
  note markers = applyPatch_markers [OF ready]
  have bad: "fst (applyPatch no_delete_binding demo_env ''*** Begin Patch'' fresh_provider)
       = Inr \<lparr>stdout = [], stderr = ''Invalid patch format'', exitCode = 1\<rparr>"
    using markers [of "''*** Begin Patch''"] marked(2) by blast
  obtain out where o: "fst (applyPatch no_delete_binding demo_env patch_add_delete fresh_provider)
               = Inr \<lparr>stdout = out, stderr = [], exitCode = 0\<rparr>"
    and dl: "list_all (\<lambda>line. startsWith line ''*** Delete File: ''
                                \<longrightarrow> reports_delete out (drop (length ''*** Delete File: '') line))
                 (butlast (tl (patch_lines patch_add_delete)))"
    and ad: "\<And>pre line body rest.
                 butlast (tl (patch_lines patch_add_delete)) = pre @ line # body @ rest
                 \<and> startsWith line ''*** Add File: '' \<and> drop (length ''*** Add File: '') line \<noteq> []
                 \<and> list_all (\<lambda>l. \<not> startsWith l ''*** Add File: '' \<and> \<not> terminator_line l) body
                 \<and> (rest = [] \<or> terminator_line (hd rest))
                 \<Longrightarrow> reports_add out (drop (length ''*** Add File: '') line)"
    using markers [of patch_add_delete] marked(1) by blast
  have ne: "drop (length ''*** Add File: '') ?add \<noteq> []"
    by (simp only: parts(2)) simp
  have "reports_add out (drop (length ''*** Add File: '') ?add)"
    by (rule ad [of "[]" ?add "[?plus]" "[?del]"])
       (intro conjI disjI2 body parts(1) ne parts(3) parts(4))
  then have "reports_add out ''hello.py''"
    by (simp only: parts(2))
  moreover have "reports_delete out ''old.txt''"
  proof -
    have "?del \<in> set (butlast (tl (patch_lines patch_add_delete)))"
      unfolding body by simp
    then have "startsWith ?del ''*** Delete File: ''
               \<longrightarrow> reports_delete out (drop (length ''*** Delete File: '') ?del)"
      using dl unfolding list_all_iff by blast
    then have "reports_delete out (drop (length ''*** Delete File: '') ?del)"
      using parts(5) by blast
    then show ?thesis by (simp only: parts(6))
  qed
  ultimately show ?thesis
    using ready marked bad o full by blast
qed


text \<open>
  Claim C5. The patch below adds \<open>a.txt\<close> and then \<open>b.txt\<close>, the first block closed by
  the second \<open>*** Add File:\<close> line. On a remote where every upload succeeds and every
  verification answers \<open>exists\<close>, \<open>a.txt\<close> is uploaded and verified, and saving it
  alone yields the line \<open>Created a.txt\<close>; the stdout of \<open>applyPatch\<close> holds the line
  of \<open>b.txt\<close> only.
\<close>

theorem applyPatch_add_closed_by_add:
  "fst (applyPatch recording_binding demo_env patch_two_adds fresh_provider) =
     Inr \<lparr>stdout = ''Created b.txt'' @ [nl], stderr = [], exitCode = 0\<rparr>
   \<and> ''uploadFile /home/daytona/a.txt''
       \<in> set (remote (snd (applyPatch recording_binding demo_env patch_two_adds fresh_provider)))
   \<and> fst (saveAddedFile recording_binding demo_env ''a.txt'' (''1'' @ [nl]) []
            (snd (ensure_initialized recording_binding demo_env fresh_provider)))
       = ''Created a.txt'' @ [nl]"
  by code_simp

subsection \<open>Strings joined from plain tokens\<close>

lemma set_str_join: "set (str_join sep xs) \<subseteq> set sep \<union> \<Union>(set ` set xs)"
  by (induction sep xs rule: str_join.induct) auto

lemma startsWith_subset: "startsWith s p \<Longrightarrow> set p \<subseteq> set s"
  unfolding startsWith_def by (metis set_take_subset)

lemma str_includes_subset: "str_includes s p \<Longrightarrow> set p \<subseteq> set s"
proof (induction s)
  case Nil
  then show ?case by simp
next
  case (Cons c cs)
  then show ?case using startsWith_subset [of "c # cs" p] by auto
qed

lemma startsWith_includes: "startsWith s p \<Longrightarrow> str_includes s p"
  by (cases s) (simp_all add: startsWith_def)

lemma plain_char_facts:
  "plain_char c \<Longrightarrow> \<not> is_space c"
  "plain_char c \<Longrightarrow> c \<noteq> sq" "plain_char c \<Longrightarrow> c \<noteq> dq" "plain_char c \<Longrightarrow> c \<noteq> CHR ''.''"
  "plain_char c \<Longrightarrow> c \<noteq> CHR ''>''" "plain_char c \<Longrightarrow> c \<noteq> CHR ''|''" "plain_char c \<Longrightarrow> c \<noteq> CHR ''&''"
  "plain_char c \<Longrightarrow> c \<noteq> CHR '';''" "plain_char c \<Longrightarrow> c \<noteq> CHR ''`''" "plain_char c \<Longrightarrow> c \<noteq> CHR ''$''"
  "plain_char c \<Longrightarrow> c \<noteq> CHR '' ''" "plain_char c \<Longrightarrow> c \<noteq> CHR ''/''" "plain_char c \<Longrightarrow> c \<noteq> bslash"
  by (auto simp: plain_char_def is_alnum_def is_space_def sq_def dq_def bslash_def Let_def)

lemma alnum_simpleName: "is_alnum c \<Longrightarrow> simpleName_char c"
  by (auto simp: simpleName_char_def is_alnum_def is_space_def bslash_def Let_def)

lemma is_space_cases: "is_space c \<Longrightarrow> \<not> plain_char c"
  using plain_char_facts(1) by blast


lemma split_on_no_sep: "d \<notin> set x \<Longrightarrow> split_on d x = [x]"
  by (induction x) auto

lemma split_on_append: "d \<notin> set x \<Longrightarrow> split_on d (x @ d # rest) = x # split_on d rest"
  by (induction x) auto

lemma split_join:
  "argv \<noteq> [] \<Longrightarrow> list_all (\<lambda>x. d \<notin> set x) argv \<Longrightarrow> split_on d (str_join [d] argv) = argv"
proof (induction "[d]" argv rule: str_join.induct)
  case 1
  then show ?case by simp
next
  case (2 x)
  then show ?case by (simp add: split_on_no_sep)
next
  case (3 x y ys)
  then show ?case by (simp add: split_on_append)
qed

lemma str_join_Cons: "str_join sep (x # xs) = (if xs = [] then x else x @ sep @ str_join sep xs)"
  by (cases xs) auto

lemma takeWhile_token:
  assumes "d \<notin> set x"
  shows "takeWhile (\<lambda>c. c \<noteq> d) (x @ d # rest) = x" "takeWhile (\<lambda>c. c \<noteq> d) x = x"
  using assms by (induction x) auto

lemma takeWhile_join:
  "d \<notin> set x \<Longrightarrow> takeWhile (\<lambda>c. c \<noteq> d) (str_join [d] (x # xs)) = x"
  by (simp add: str_join_Cons takeWhile_token)



lemma plain_join_chars:
  assumes "plain_argv argv" and "c \<in> set (str_join '' '' argv)"
  shows "plain_char c \<or> c = CHR '' ''"
proof -
  have "c \<in> set '' '' \<union> \<Union>(set ` set argv)"
    using assms(2) set_str_join [of "'' ''" argv] by blast
  then show ?thesis
    using assms(1) by (auto simp: plain_argv_def list_all_iff)
qed

lemma plain_join_excludes:
  assumes "plain_argv argv" and "c \<in> set p" and "\<not> plain_char c" and "c \<noteq> CHR '' ''"
  shows "\<not> str_includes (str_join '' '' argv) p"
  using assms plain_join_chars [of argv c] str_includes_subset [of "str_join '' '' argv" p] by blast

lemma plain_token_no_space: "plain_argv argv \<Longrightarrow> list_all (\<lambda>x. CHR '' '' \<notin> set x) argv"
  by (auto simp: plain_argv_def list_all_iff dest: plain_char_facts(11))

lemma command_words_no_space: "w \<in> set simpleFileCommands \<Longrightarrow> CHR '' '' \<notin> set w"
  by (auto simp: simpleFileCommands_def)

text \<open>A command word that the joined string starts with, white space behind it, is the first token.\<close>

lemma word_then_space_is_first_token:
  assumes p: "plain_argv (x # xs)" and w: "CHR '' '' \<notin> set w"
    and s: "strip_prefix w (str_join '' '' (x # xs)) = Some r" and sp: "skip_spaces1 r = Some r1"
  shows "w = x"
proof -
  let ?s = "str_join '' '' (x # xs)"
  have sw: "take (length w) ?s = w" and r: "r = drop (length w) ?s"
    using s by (auto simp: strip_prefix_def startsWith_def split: if_splits)
  have rn: "r \<noteq> []" and hs: "is_space (hd r)"
    using sp by (auto simp: skip_spaces1_def split: if_splits)
  have "hd r \<in> set ?s"
    using rn r by (metis hd_in_set in_set_dropD)
  then have "hd r = CHR '' ''"
    using plain_join_chars [OF p, of "hd r"] hs is_space_cases by blast
  then have "r = CHR '' '' # tl r"
    using rn by (metis list.collapse)
  then have "?s = w @ CHR '' '' # tl r"
    using sw r by (metis append_take_drop_id)
  then have "takeWhile (\<lambda>c. c \<noteq> CHR '' '') ?s = w"
    using takeWhile_token(1) [OF w] by simp
  moreover have "CHR '' '' \<notin> set x"
    using plain_token_no_space [OF p] by simp
  ultimately show ?thesis
    using takeWhile_join [of "CHR '' ''" x xs] by simp
qed

lemma regex_needs_command:
  assumes "plain_argv (x # xs)" and "x \<notin> set simpleFileCommands"
  shows "\<not> simpleFileCommandRegex (str_join '' '' (x # xs))"
  using assms word_then_space_is_first_token [OF assms(1)] command_words_no_space
  by (fastforce simp: simpleFileCommandRegex_def list_ex_iff split: option.splits)

lemma takeWhile_append_stop:
  "\<exists>c \<in> set a. \<not> P c \<Longrightarrow> takeWhile P (a @ b) = takeWhile P a"
  "\<exists>c \<in> set a. \<not> P c \<Longrightarrow> dropWhile P (a @ b) = dropWhile P a @ b"
  by (induction a) auto

lemma regex_needs_dashless:
  assumes p: "plain_argv (x # a # xs)" and a: "a \<noteq> []" and d: "CHR ''-'' \<in> set a"
  shows "\<not> simpleFileCommandRegex (str_join '' '' (x # a # xs))"
proof
  let ?s = "str_join '' '' (x # a # xs)"
  assume "simpleFileCommandRegex ?s"
  then obtain w r r1 where w: "w \<in> set simpleFileCommands"
    and s: "strip_prefix w ?s = Some r" and sp: "skip_spaces1 r = Some r1"
    and t: "takeWhile simpleName_char r1 \<noteq> []"
    and e: "dropWhile simpleName_char r1 = [] \<or> is_space (hd (dropWhile simpleName_char r1))"
    by (auto simp: simpleFileCommandRegex_def list_ex_iff split: option.splits)
  have wx: "w = x"
    using word_then_space_is_first_token [OF p command_words_no_space [OF w] s sp] .
  obtain tail where j: "str_join '' '' (a # xs) = a @ tail"
    by (cases xs) auto
  have "?s = x @ CHR '' '' # a @ tail"
    using j by simp
  then have r: "r = CHR '' '' # a @ tail"
    using s wx by (auto simp: strip_prefix_def split: if_splits)
  have pa: "list_all plain_char a"
    using p by (simp add: plain_argv_def)
  have "\<not> is_space (hd a)"
    using pa a plain_char_facts(1) by (cases a) auto
  then have r1: "r1 = a @ tail"
    using sp r a by (cases a) (auto simp: skip_spaces1_def is_space_def)
  have ex: "\<exists>c \<in> set a. \<not> simpleName_char c"
    using d by (auto simp: simpleName_char_def)
  have dn: "dropWhile simpleName_char a \<noteq> []"
    using ex by (simp add: dropWhile_eq_Nil_conv)
  then have h: "hd (dropWhile simpleName_char a) \<in> set a" "\<not> simpleName_char (hd (dropWhile simpleName_char a))"
    using hd_dropWhile [OF dn] by (metis dn hd_in_set set_dropWhileD)+
  then have "plain_char (hd (dropWhile simpleName_char a))"
    using pa by (simp add: list_all_iff)
  then have "\<not> is_space (hd (dropWhile simpleName_char a))"
    using plain_char_facts(1) by blast
  then show False
    using e dn by (simp add: r1 takeWhile_append_stop(2) [OF ex])
qed

lemma fixSimpleFilenamePaths_plain:
  assumes p: "plain_argv argv" and n: "argv \<noteq> []"
    and h: "\<not> (hd argv \<in> set simpleFileCommands \<and> 2 \<le> length argv \<and> argv ! 1 \<noteq> []
               \<and> CHR ''-'' \<notin> set (argv ! 1))"
  shows "fixSimpleFilenamePaths rd (str_join '' '' argv) = Inr (str_join '' '' argv)"
proof (cases "simpleFileCommandRegex (str_join '' '' argv)")
  case False
  then show ?thesis by (simp add: fixSimpleFilenamePaths_def)
next
  case True
  obtain x xs where ax: "argv = x # xs" using n by (cases argv) auto
  have x: "x \<in> set simpleFileCommands"
    using True regex_needs_command [of x xs] p ax by blast
  have sp: "split_on CHR '' '' (str_join '' '' argv) = argv"
    using split_join [OF n, of "CHR '' ''"] plain_token_no_space [OF p] by simp
  show ?thesis
  proof (cases xs)
    case Nil
    then show ?thesis
      using sp ax by (simp add: fixSimpleFilenamePaths_def True)
  next
    case (Cons a ys)
    have "a = [] \<or> CHR ''-'' \<in> set a"
      using h x ax Cons by simp
    moreover have "a \<noteq> [] \<Longrightarrow> CHR ''-'' \<in> set a \<Longrightarrow> False"
      using regex_needs_dashless [of x a ys] True p ax Cons by simp
    ultimately have "a = []" by blast
    then show ?thesis
      using sp ax Cons by (simp add: fixSimpleFilenamePaths_def True)
  qed
qed


lemma first_match_suffix:
  "first_match m s = Some x \<Longrightarrow> \<exists>t. set t \<subseteq> set s \<and> m t = Some x"
proof (induction s)
  case Nil
  then show ?case by auto
next
  case (Cons c cs)
  show ?case
  proof (cases "m (c # cs)")
    case None
    then obtain t where "set t \<subseteq> set cs" "m t = Some x"
      using Cons by auto
    then show ?thesis by (intro exI [of _ t]) auto
  next
    case (Some y)
    then show ?thesis using Cons.prems by (intro exI [of _ "c # cs"]) auto
  qed
qed

lemma set_dropWhile_subset: "set (dropWhile P xs) \<subseteq> set xs"
  by (induction xs) auto

lemma strip_prefix_subset: "strip_prefix p s = Some r \<Longrightarrow> set r \<subseteq> set s"
  by (auto simp: strip_prefix_def split: if_splits dest: in_set_dropD)

lemma skip_spaces1_subset: "skip_spaces1 s = Some r \<Longrightarrow> set r \<subseteq> set s"
  using set_dropWhile_subset [of is_space s] by (auto simp: skip_spaces1_def split: if_splits)

lemma set_tl_subset: "set (tl xs) \<subseteq> set xs"
  by (cases xs) auto

lemma python_c_here_quote:
  assumes "python_c_here t = Some x"
  shows "sq \<in> set t \<or> dq \<in> set t"
proof -
  obtain r r1 r2 r3 where a: "strip_prefix ''python'' t = Some r"
    and b: "skip_spaces1 (if startsWith r ''3'' then tl r else r) = Some r1"
    and c: "strip_prefix ''-c'' r1 = Some r2" and d: "skip_spaces1 r2 = Some r3"
    and e: "r3 \<noteq> []" "hd r3 = sq \<or> hd r3 = dq"
    using assms by (auto simp: python_c_here_def split: option.splits if_splits)
  have "set r3 \<subseteq> set r2" "set r2 \<subseteq> set r1" "set r \<subseteq> set t"
    using a c d strip_prefix_subset skip_spaces1_subset by blast+
  moreover have "set r1 \<subseteq> set r"
    using skip_spaces1_subset [OF b] set_tl_subset [of r] by (auto split: if_splits)
  moreover have "hd r3 \<in> set r3" using e(1) by simp
  ultimately have "hd r3 \<in> set t" by blast
  then show ?thesis using e(2) by auto
qed

lemma fixPythonCommand_plain:
  assumes "plain_argv argv"
  shows "fixPythonCommand (str_join '' '' argv) = str_join '' '' argv"
proof (cases "first_match python_c_here (str_join '' '' argv)")
  case None
  then show ?thesis by (simp add: fixPythonCommand_def)
next
  case (Some x)
  obtain t where t: "set t \<subseteq> set (str_join '' '' argv)" "python_c_here t = Some x"
    using first_match_suffix [OF Some] by auto
  have "sq \<in> set (str_join '' '' argv) \<or> dq \<in> set (str_join '' '' argv)"
    using python_c_here_quote [OF t(2)] t(1) by auto
  moreover have "\<not> plain_char sq" "\<not> plain_char dq"
    using plain_char_facts(2,3) by blast+
  moreover have "sq \<noteq> CHR '' ''" "dq \<noteq> CHR '' ''"
    by (simp_all add: sq_def dq_def)
  ultimately have False
    using plain_join_chars [OF assms, of sq] plain_join_chars [OF assms, of dq] by blast
  then show ?thesis ..
qed


lemma needsShellWrapping_plain:
  assumes p: "plain_argv argv"
    and t: "list_all (\<lambda>w. \<not> str_includes (str_join '' '' argv) w) trigger_words"
    and y: "\<not> (startsWith (str_join '' '' argv) ''python''
              \<and> (str_includes (str_join '' '' argv) ''-c'' \<or> str_includes (str_join '' '' argv) ''-m''))"
  shows "\<not> needsShellWrapping (str_join '' '' argv)"
proof -
  let ?s = "str_join '' '' argv"
  have x: "\<not> str_includes ?s w" if "c \<in> set w" "\<not> plain_char c" "c \<noteq> CHR '' ''" for w c
    using plain_join_excludes [OF p that] .
  have np: "\<not> plain_char CHR ''>''" "\<not> plain_char CHR ''|''" "\<not> plain_char CHR ''&''"
    "\<not> plain_char CHR '';''" "\<not> plain_char dq" "\<not> plain_char sq" "\<not> plain_char CHR ''`''"
    "\<not> plain_char CHR ''$''"
    using plain_char_facts by blast+
  have 1: "\<not> str_includes ?s '' > ''" using x [of "CHR ''>''" "'' > ''"] np by simp
  have 2: "\<not> str_includes ?s '' | ''" using x [of "CHR ''|''" "'' | ''"] np by simp
  have 3: "\<not> str_includes ?s '' && ''" using x [of "CHR ''&''" "'' && ''"] np by simp
  have 4: "\<not> str_includes ?s '' ; ''" using x [of "CHR '';''" "'' ; ''"] np by simp
  have 5: "\<not> str_includes ?s '' & ''" using x [of "CHR ''&''" "'' & ''"] np by simp
  have 6: "\<not> str_includes ?s [dq]" using x [of dq "[dq]"] np by (simp add: dq_def)
  have 7: "\<not> str_includes ?s [sq]" using x [of sq "[sq]"] np by (simp add: sq_def)
  have 8: "\<not> str_includes ?s ''`''" using x [of "CHR ''`''" "''`''"] np by simp
  have 9: "\<not> str_includes ?s ''$''" using x [of "CHR ''$''" "''$''"] np by simp
  have w: "\<not> str_includes ?s ''nohup ''" "\<not> str_includes ?s ''echo''" "\<not> str_includes ?s ''which''"
    "\<not> str_includes ?s ''find''" "\<not> str_includes ?s ''grep''"
    using t by (simp_all add: trigger_words_def)
  have "startsWith ?s ''python''" if "startsWith ?s ''python3''"
    using that startsWith_append [of ?s "''python''" "''3''"] by simp
  then have 10: "\<not> (startsWith ?s ''python3''
              \<and> (str_includes ?s ''-c'' \<or> str_includes ?s ''-m''))"
    using y by blast
  show ?thesis
    by (simp only: needsShellWrapping_def 1 2 3 4 5 6 7 8 9 10 w y simp_thms)
qed


lemma applyCommandSpecificFixes_plain:
  assumes p: "plain_argv argv"
    and t: "list_all (\<lambda>w. \<not> str_includes (str_join '' '' argv) w) trigger_words"
    and y: "\<not> (startsWith (str_join '' '' argv) ''python''
              \<and> (str_includes (str_join '' '' argv) ''-c'' \<or> str_includes (str_join '' '' argv) ''-m''))"
    and o: "\<not> startsWith (str_join '' '' argv) ''timeout ''"
    and l: "\<not> startsWith (str_join '' '' argv) ''sleep ''"
  shows "applyCommandSpecificFixes (str_join '' '' argv) = str_join '' '' argv"
proof -
  let ?s = "str_join '' '' argv"
  have w: "\<not> needsShellWrapping ?s"
    using needsShellWrapping_plain [OF p t y] .
  have 1: "fixPythonCommand ?s = ?s"
    using fixPythonCommand_plain [OF p] .
  have 2: "fixTimeoutCommand ?s = ?s"
    using o by (simp add: fixTimeoutCommand_def)
  have 3: "fixSleepCommand ?s = ?s"
    using l by (simp add: fixSleepCommand_def)
  have "\<not> str_includes ?s ''nohup ''"
    using t by (simp add: trigger_words_def)
  then have "\<not> startsWith ?s ''nohup ''"
    using startsWith_includes by blast
  then have 4: "fixNohupCommand ?s = ?s"
    by (simp add: fixNohupCommand_def)
  have f: "\<not> str_includes ?s ''flask run''"
    using t by (simp add: trigger_words_def)
  have "\<not> plain_char CHR ''.''"
    using plain_char_facts(4) by blast
  then have a: "\<not> str_includes ?s ''app.py''"
    using plain_join_excludes [OF p, of "CHR ''.''" "''app.py''"] by simp
  have 5: "fixFlaskCommand ?s = ?s"
    using f a by (simp add: fixFlaskCommand_def)
  show ?thesis
    unfolding applyCommandSpecificFixes_def Let_def using w by (simp add: 1 2 3 4 5)
qed

subsection \<open>Path mapping\<close>

text \<open>
  Claim C3. With the host home \<open>/Users/alice\<close> and the root directory
  \<open>/home/daytona\<close>, the host path \<open>/Users/aliceextra/x\<close> starts with the home
  directory as a string without being inside it. \<open>mapPath\<close> caches for it the remote
  path \<open>/home/aliceextra/x\<close>, which does not begin with the root directory and is not a
  pass-through path: the host path does not contain \<open>/home/daytona\<close>.
\<close>

theorem mapPath_home_prefix_escapes:
  "rootDir ready_provider = Some ''/home/daytona''
   \<and> homeDir demo_env = ''/Users/alice''
   \<and> fst (mapPath demo_env ''/Users/aliceextra/x'' ready_provider) = Inr ''/home/aliceextra/x''
   \<and> pathMapping (snd (mapPath demo_env ''/Users/aliceextra/x'' ready_provider))
       = [(''/Users/aliceextra/x'', ''/home/aliceextra/x'')]
   \<and> \<not> startsWith ''/home/aliceextra/x'' ''/home/daytona''
   \<and> \<not> str_includes ''/Users/aliceextra/x'' ''/home/daytona''"
  by code_simp

subsection \<open>Session execution\<close>





text \<open>
  Claim C6. On a remote that refuses every new session, the first \<open>exec\<close> without
  working directory stores the fresh id \<open>exec-session-default-42\<close> under the key
  \<open>default\<close>, fails to create it, and runs the command in the default session; the
  entry stays. The next \<open>exec\<close> finds the entry and submits its command to the session
  \<open>exec-session-default-42\<close>, which was never created.
\<close>

theorem exec_keeps_failed_session_id:
  "fst (createSession no_session_binding ''exec-session-default-42'' (remote ready_provider))
     = Inl (new_Error ''session limit reached'')
   \<and> sessionMap (snd (exec no_session_binding demo_env 42 ls_input ready_provider))
       = [(''default'', ''exec-session-default-42'')]
   \<and> remote (snd (exec no_session_binding demo_env 42 ls_input ready_provider))
       = [''createSession exec-session-default-42 failed'',
          ''createSession default-exec-session failed'',
          ''executeSessionCommand default-exec-session cd /home/daytona && ls'']
   \<and> last (remote (snd (exec no_session_binding demo_env 43 ls_input
                           (snd (exec no_session_binding demo_env 42 ls_input ready_provider)))))
       = ''executeSessionCommand exec-session-default-42 cd /home/daytona && ls''"
  by code_simp






subsection \<open>Command preparation\<close>

text \<open>
  Claim C4, as stated, fails: \<open>echo hello\<close> and \<open>ls foo\<close> are made of alphanumeric
  tokens; the first is wrapped in \<open>/bin/sh -c\<close> (it contains \<open>echo\<close>), the second
  has its file name rooted in the root directory.
\<close>

theorem submittedCommand_plain_argv_counterexample:
  "plain_argv [''echo'', ''hello''] \<and> plain_argv [''ls'', ''foo'']
   \<and> submittedCommand (Some ''/home/daytona'') (Some ''/home/daytona'') [''echo'', ''hello'']
       = Inr (''cd /home/daytona && /bin/sh -c '' @ [sq] @ ''echo hello'' @ [sq])
   \<and> submittedCommand (Some ''/home/daytona'') (Some ''/home/daytona'') [''ls'', ''foo'']
       = Inr ''cd /home/daytona && ls /home/daytona/foo''"
  by code_simp

text \<open>
  Claim C4, amended. For every non-empty argv of tokens made of alphanumerics and
  dashes that triggers none of the rewrites, the submitted string is
  \<open>cd remoteWorkdir && \<close> followed by the tokens joined with single spaces. No rewrite
  is triggered when: the first token is not one of \<open>rm\<close>, \<open>ls\<close>, \<open>cat\<close>, \<open>chmod\<close>,
  \<open>python\<close>, \<open>python3\<close>, \<open>head\<close>, \<open>tail\<close>, \<open>mkdir\<close> followed by a non-empty second
  token without a dash; the joined string contains none of \<open>nohup \<close>, \<open>echo\<close>,
  \<open>which\<close>, \<open>find\<close>, \<open>grep\<close>, \<open>flask run\<close>; it does not start with \<open>python\<close> while
  containing \<open>-c\<close> or \<open>-m\<close>; and it starts with neither \<open>timeout \<close> nor \<open>sleep \<close>.
\<close>

theorem submittedCommand_plain_argv:
  assumes "argv \<noteq> []" and "plain_argv argv"
    and "\<not> (hd argv \<in> set simpleFileCommands \<and> 2 \<le> length argv \<and> argv ! 1 \<noteq> []
            \<and> CHR ''-'' \<notin> set (argv ! 1))"
    and "list_all (\<lambda>w. \<not> str_includes (str_join '' '' argv) w) trigger_words"
    and "\<not> (startsWith (str_join '' '' argv) ''python''
            \<and> (str_includes (str_join '' '' argv) ''-c'' \<or> str_includes (str_join '' '' argv) ''-m''))"
    and "\<not> startsWith (str_join '' '' argv) ''timeout ''"
    and "\<not> startsWith (str_join '' '' argv) ''sleep ''"
    and "remoteWorkdir \<noteq> []"
  shows "submittedCommand rd (Some remoteWorkdir) argv
         = Inr (''cd '' @ remoteWorkdir @ '' && '' @ str_join '' '' argv)"
proof -
  have "prepareCommand rd argv = Inr (str_join '' '' argv)"
    unfolding prepareCommand_def
    using fixSimpleFilenamePaths_plain [OF assms(2,1,3)]
      applyCommandSpecificFixes_plain [OF assms(2,4,5,6,7)] by simp
  then show ?thesis
    using assms(8) by (simp add: submittedCommand_def truthy_def str_or_def)
qed

theorem submittedCommand_plain_argv_witness:
  "plain_argv [''git'', ''status'']
   \<and> submittedCommand (Some ''/home/daytona'') (Some ''/home/daytona'') [''git'', ''status'']
       = Inr ''cd /home/daytona && git status''"
proof -
  have h: "[''git'', ''status''] \<noteq> []" "plain_argv [''git'', ''status'']"
    "\<not> (hd [''git'', ''status''] \<in> set simpleFileCommands \<and> 2 \<le> length [''git'', ''status'']
        \<and> [''git'', ''status''] ! 1 \<noteq> [] \<and> CHR ''-'' \<notin> set ([''git'', ''status''] ! 1))"
    "list_all (\<lambda>w. \<not> str_includes (str_join '' '' [''git'', ''status'']) w) trigger_words"
    "\<not> (startsWith (str_join '' '' [''git'', ''status'']) ''python''
        \<and> (str_includes (str_join '' '' [''git'', ''status'']) ''-c''
             \<or> str_includes (str_join '' '' [''git'', ''status'']) ''-m''))"
    "\<not> startsWith (str_join '' '' [''git'', ''status'']) ''timeout ''"
    "\<not> startsWith (str_join '' '' [''git'', ''status'']) ''sleep ''"
    "''/home/daytona'' \<noteq> []"
    by code_simp+
  show ?thesis
    using submittedCommand_plain_argv [OF h, of "Some ''/home/daytona''"] h(2) by simp
qed

end
